theory Spec2Isabelle
  imports Main "HOL-Library.Word"
begin

section \<open>The glyph catalogue\<close>

text \<open>
  The program \<^verbatim>\<open>display_curses.py\<close> reads measurements of a dial indicator from a
  serial line and paints them in big glyphs on a curses screen. A glyph is a list of
  rows, each row a Python string in which every character other than a blank is a
  filled cell. A font is a Python dict from a character to its glyph; it is kept here as
  the association list of the dict literal, in the literal's order (no literal repeats
  a key, so \<open>map_of\<close>, which takes the first entry of a key, is the dict's lookup).
\<close>

type_synonym glyph = "string list"

type_synonym char_set = "(char \<times> glyph) list"

definition CHAR_SET1 :: char_set where
  "CHAR_SET1 = [
    (CHR ''0'', ['' ###  '',
                 ''#   # '',
                 ''#   # '',
                 ''#   # '',
                 ''#   # '',
                 ''#   # '',
                 '' ###  '',
                 ''      '']),
    (CHR ''1'', ['' ##   '',
                 ''# #   '',
                 ''  #   '',
                 ''  #   '',
                 ''  #   '',
                 ''  #   '',
                 ''##### '',
                 ''      '']),
    (CHR ''2'', ['' ###  '',
                 ''#   # '',
                 ''    # '',
                 '' ###  '',
                 ''#     '',
                 ''#     '',
                 ''##### '',
                 ''      '']),
    (CHR ''3'', ['' ###  '',
                 ''#   # '',
                 ''    # '',
                 '' ###  '',
                 ''    # '',
                 ''#   # '',
                 '' ###  '',
                 ''      '']),
    (CHR ''4'', [''#   # '',
                 ''#   # '',
                 ''#   # '',
                 ''##### '',
                 ''    # '',
                 ''    # '',
                 ''    # '',
                 ''      '']),
    (CHR ''5'', [''####  '',
                 ''#     '',
                 ''#     '',
                 '' ###  '',
                 ''    # '',
                 ''    # '',
                 ''####  '',
                 ''      '']),
    (CHR ''6'', ['' ###  '',
                 ''#     '',
                 ''#     '',
                 ''####  '',
                 ''#   # '',
                 ''#   # '',
                 '' ###  '',
                 ''      '']),
    (CHR ''7'', [''##### '',
                 ''#   # '',
                 ''    # '',
                 ''   #  '',
                 ''  #   '',
                 '' #    '',
                 '' #    '',
                 ''      '']),
    (CHR ''8'', ['' ###  '',
                 ''#   # '',
                 ''#   # '',
                 '' ###  '',
                 ''#   # '',
                 ''#   # '',
                 '' ###  '',
                 ''      '']),
    (CHR ''9'', ['' ###  '',
                 ''#   # '',
                 ''#   # '',
                 '' #### '',
                 ''    # '',
                 ''    # '',
                 '' ###  '',
                 ''      '']),
    (CHR ''i'', [''  '',
                 ''# '',
                 ''  '',
                 ''# '',
                 ''# '',
                 ''# '',
                 ''# '',
                 ''  '']),
    (CHR ''n'', [''      '',
                 ''      '',
                 ''      '',
                 '' ###  '',
                 ''#   # '',
                 ''#   # '',
                 ''#   # '',
                 ''      '']),
    (CHR ''m'', [''        '',
                 ''        '',
                 ''        '',
                 '' ## ##  '',
                 ''#  #  # '',
                 ''#  #  # '',
                 ''#  #  # '',
                 ''        '']),
    (CHR ''-'', [''    '',
                 ''    '',
                 ''    '',
                 ''### '',
                 ''    '',
                 ''    '',
                 ''    '',
                 ''    '']),
    (CHR '' '', [''    '',
                 ''    '',
                 ''    '',
                 ''    '',
                 ''    '',
                 ''    '',
                 ''    '',
                 ''    '']),
    (CHR ''.'', [''  '',
                 ''  '',
                 ''  '',
                 ''  '',
                 ''  '',
                 ''  '',
                 ''# '',
                 ''  '']),
    (CHR ''?'', ['' ###  '',
                 ''#   # '',
                 ''    # '',
                 ''   #  '',
                 ''  #   '',
                 ''      '',
                 ''  #   '',
                 ''      ''])]"

definition CHAR_SET2 :: char_set where
  "CHAR_SET2 = [
    (CHR ''0'', ['' #####  '',
                 ''##   ## '',
                 ''##   ## '',
                 ''##   ## '',
                 ''##   ## '',
                 ''##   ## '',
                 '' #####  '',
                 ''        '']),
    (CHR ''1'', ['' ####   '',
                 ''#  ##   '',
                 ''   ##   '',
                 ''   ##   '',
                 ''   ##   '',
                 ''   ##   '',
                 ''####### '',
                 ''        '']),
    (CHR ''2'', ['' #####  '',
                 ''##   ## '',
                 ''     ## '',
                 '' #####  '',
                 ''##      '',
                 ''##      '',
                 ''####### '',
                 ''        '']),
    (CHR ''3'', ['' #####  '',
                 ''##   ## '',
                 ''     ## '',
                 '' #####  '',
                 ''     ## '',
                 ''##   ## '',
                 '' #####  '',
                 ''        '']),
    (CHR ''4'', [''##   ## '',
                 ''##   ## '',
                 ''##   ## '',
                 ''####### '',
                 ''     ## '',
                 ''     ## '',
                 ''     ## '',
                 ''        '']),
    (CHR ''5'', [''######  '',
                 ''##      '',
                 ''##      '',
                 '' #####  '',
                 ''     ## '',
                 ''     ## '',
                 ''######  '',
                 ''        '']),
    (CHR ''6'', ['' #####  '',
                 ''##      '',
                 ''##      '',
                 ''######  '',
                 ''##   ## '',
                 ''##   ## '',
                 '' #####  '',
                 ''        '']),
    (CHR ''7'', [''####### '',
                 ''##   ## '',
                 ''     ## '',
                 ''    ##  '',
                 ''   ##   '',
                 ''  ##    '',
                 ''  ##    '',
                 ''        '']),
    (CHR ''8'', ['' #####  '',
                 ''##   ## '',
                 ''##   ## '',
                 '' #####  '',
                 ''##   ## '',
                 ''##   ## '',
                 '' #####  '',
                 ''        '']),
    (CHR ''9'', ['' #####  '',
                 ''##   ## '',
                 ''##   ## '',
                 '' ###### '',
                 ''     ## '',
                 ''     ## '',
                 '' #####  '',
                 ''        '']),
    (CHR ''i'', [''  '',
                 ''# '',
                 ''  '',
                 ''# '',
                 ''# '',
                 ''# '',
                 ''# '',
                 ''  '']),
    (CHR ''n'', [''      '',
                 ''      '',
                 ''      '',
                 '' ###  '',
                 ''#   # '',
                 ''#   # '',
                 ''#   # '',
                 ''      '']),
    (CHR ''m'', [''        '',
                 ''        '',
                 ''        '',
                 '' ## ##  '',
                 ''#  #  # '',
                 ''#  #  # '',
                 ''#  #  # '',
                 ''        '']),
    (CHR ''-'', [''     '',
                 ''     '',
                 ''     '',
                 ''#### '',
                 ''     '',
                 ''     '',
                 ''     '',
                 ''     '']),
    (CHR '' '', [''     '',
                 ''     '',
                 ''     '',
                 ''     '',
                 ''     '',
                 ''     '',
                 ''     '',
                 ''     '']),
    (CHR ''.'', [''  '',
                 ''  '',
                 ''  '',
                 ''  '',
                 ''  '',
                 ''  '',
                 ''# '',
                 ''  '']),
    (CHR ''?'', ['' #####  '',
                 ''##   ## '',
                 ''     ## '',
                 ''    ##  '',
                 ''   ##   '',
                 ''        '',
                 ''   ##   '',
                 ''        ''])]"

definition CHAR_SET3 :: char_set where
  "CHAR_SET3 = [
    (CHR ''0'', ['' #####  '',
                 ''####### '',
                 ''##   ## '',
                 ''##   ## '',
                 ''##   ## '',
                 ''##   ## '',
                 ''##   ## '',
                 ''####### '',
                 '' #####  '',
                 ''        '']),
    (CHR ''1'', ['' ####   '',
                 ''#####   '',
                 ''## ##   '',
                 ''   ##   '',
                 ''   ##   '',
                 ''   ##   '',
                 ''   ##   '',
                 ''####### '',
                 ''####### '',
                 ''        '']),
    (CHR ''2'', ['' #####  '',
                 ''####### '',
                 ''##   ## '',
                 ''     ## '',
                 '' #####  '',
                 ''##      '',
                 ''##      '',
                 ''####### '',
                 ''####### '',
                 ''        '']),
    (CHR ''3'', ['' #####  '',
                 ''####### '',
                 ''##   ## '',
                 ''     ## '',
                 '' #####  '',
                 ''     ## '',
                 ''##   ## '',
                 ''####### '',
                 '' #####  '',
                 ''        '']),
    (CHR ''4'', [''##   ## '',
                 ''##   ## '',
                 ''##   ## '',
                 ''##   ## '',
                 ''####### '',
                 ''####### '',
                 ''     ## '',
                 ''     ## '',
                 ''     ## '',
                 ''        '']),
    (CHR ''5'', [''######  '',
                 ''######  '',
                 ''##      '',
                 ''##      '',
                 '' #####  '',
                 ''     ## '',
                 ''     ## '',
                 ''######  '',
                 ''#####   '',
                 ''        '']),
    (CHR ''6'', ['' #####  '',
                 ''######  '',
                 ''##      '',
                 ''##      '',
                 ''######  '',
                 ''##   ## '',
                 ''##   ## '',
                 '' #####  '',
                 ''  ###   '',
                 ''        '']),
    (CHR ''7'', [''####### '',
                 ''####### '',
                 ''##   ## '',
                 ''     ## '',
                 ''    ##  '',
                 ''   ##   '',
                 ''  ##    '',
                 ''  ##    '',
                 ''  ##    '',
                 ''        '']),
    (CHR ''8'', ['' #####  '',
                 ''####### '',
                 ''##   ## '',
                 ''##   ## '',
                 '' #####  '',
                 ''##   ## '',
                 ''##   ## '',
                 ''####### '',
                 '' #####  '',
                 ''        '']),
    (CHR ''9'', ['' #####  '',
                 ''####### '',
                 ''##   ## '',
                 ''##   ## '',
                 '' ###### '',
                 ''     ## '',
                 ''     ## '',
                 '' #####  '',
                 '' ####   '',
                 ''        '']),
    (CHR ''i'', [''  '',
                 ''## '',
                 ''## '',
                 ''   '',
                 ''## '',
                 ''## '',
                 ''## '',
                 ''## '',
                 ''## '',
                 ''   '']),
    (CHR ''n'', [''        '',
                 ''        '',
                 ''        '',
                 ''        '',
                 '' #####  '',
                 ''##   ## '',
                 ''##   ## '',
                 ''##   ## '',
                 ''##   ## '',
                 ''        '']),
    (CHR ''m'', [''          '',
                 ''          '',
                 ''          '',
                 ''          '',
                 '' ### ###  '',
                 ''##  #  ## '',
                 ''##  #  ## '',
                 ''##  #  ## '',
                 ''##  #  ## '',
                 ''          '']),
    (CHR ''-'', [''     '',
                 ''     '',
                 ''     '',
                 ''     '',
                 ''#### '',
                 ''     '',
                 ''     '',
                 ''     '',
                 ''     '',
                 ''     '']),
    (CHR '' '', [''     '',
                 ''     '',
                 ''     '',
                 ''     '',
                 ''     '',
                 ''     '',
                 ''     '',
                 ''     '',
                 ''     '',
                 ''     '']),
    (CHR ''.'', [''   '',
                 ''   '',
                 ''   '',
                 ''   '',
                 ''   '',
                 ''   '',
                 ''   '',
                 ''## '',
                 ''## '',
                 ''   '']),
    (CHR ''?'', ['' #####  '',
                 ''####### '',
                 ''##   ## '',
                 ''     ## '',
                 ''    ##  '',
                 ''   ##   '',
                 ''   ##   '',
                 ''        '',
                 ''   ##   '',
                 ''        ''])]"

definition CHAR_SET4 :: char_set where
  "CHAR_SET4 = [
    (CHR ''0'', ['' #######  '',
                 ''######### '',
                 ''##     ## '',
                 ''##     ## '',
                 ''##     ## '',
                 ''##     ## '',
                 ''##     ## '',
                 ''##     ## '',
                 ''######### '',
                 '' #######  '',
                 ''          '']),
    (CHR ''1'', ['' #####    '',
                 ''######    '',
                 ''## ###    '',
                 ''   ###    '',
                 ''   ###    '',
                 ''   ###    '',
                 ''   ###    '',
                 ''   ###    '',
                 ''######### '',
                 ''######### '',
                 ''          '']),
    (CHR ''2'', ['' #######  '',
                 ''######### '',
                 ''##     ## '',
                 ''       ## '',
                 ''  ######  '',
                 '' ######   '',
                 ''##        '',
                 ''##        '',
                 ''######### '',
                 ''######### '',
                 ''          '']),
    (CHR ''3'', ['' #######  '',
                 ''######### '',
                 ''##     ## '',
                 ''       ## '',
                 '' #######  '',
                 '' #######  '',
                 ''       ## '',
                 ''##     ## '',
                 ''######### '',
                 '' #######  '',
                 ''          '']),
    (CHR ''4'', [''##     ## '',
                 ''##     ## '',
                 ''##     ## '',
                 ''##     ## '',
                 ''######### '',
                 ''######### '',
                 ''       ## '',
                 ''       ## '',
                 ''       ## '',
                 ''       ## '',
                 ''          '']),
    (CHR ''5'', [''########  '',
                 ''########  '',
                 ''##        '',
                 ''##        '',
                 '' ######   '',
                 ''  ######  '',
                 ''       ## '',
                 ''       ## '',
                 ''########  '',
                 ''#######   '',
                 ''          '']),
    (CHR ''6'', ['' #######  '',
                 ''########  '',
                 ''##        '',
                 ''##        '',
                 ''#######   '',
                 ''########  '',
                 ''##     ## '',
                 ''##     ## '',
                 '' #######  '',
                 ''  #####   '',
                 ''          '']),
    (CHR ''7'', [''######### '',
                 ''######### '',
                 ''##     ## '',
                 ''       ## '',
                 ''      ##  '',
                 ''     ##   '',
                 ''    ##    '',
                 ''    ##    '',
                 ''    ##    '',
                 ''    ##    '',
                 ''          '']),
    (CHR ''8'', ['' #######  '',
                 ''######### '',
                 ''##     ## '',
                 ''##     ## '',
                 '' #######  '',
                 '' #######  '',
                 ''##     ## '',
                 ''##     ## '',
                 ''######### '',
                 '' #######  '',
                 ''          '']),
    (CHR ''9'', ['' #######  '',
                 ''######### '',
                 ''##     ## '',
                 ''##     ## '',
                 '' ######## '',
                 ''  ####### '',
                 ''       ## '',
                 ''       ## '',
                 '' #######  '',
                 '' ####     '',
                 ''          '']),
    (CHR ''i'', [''  '',
                 ''## '',
                 ''## '',
                 ''   '',
                 ''## '',
                 ''## '',
                 ''## '',
                 ''## '',
                 ''## '',
                 ''## '',
                 ''   '']),
    (CHR ''n'', [''        '',
                 ''        '',
                 ''        '',
                 ''        '',
                 ''        '',
                 '' #####  '',
                 ''##   ## '',
                 ''##   ## '',
                 ''##   ## '',
                 ''##   ## '',
                 ''        '']),
    (CHR ''m'', [''          '',
                 ''          '',
                 ''          '',
                 ''          '',
                 ''          '',
                 '' ### ###  '',
                 ''##  #  ## '',
                 ''##  #  ## '',
                 ''##  #  ## '',
                 ''##  #  ## '',
                 ''          '']),
    (CHR ''-'', [''     '',
                 ''     '',
                 ''     '',
                 ''     '',
                 ''     '',
                 ''#### '',
                 ''     '',
                 ''     '',
                 ''     '',
                 ''     '',
                 ''     '']),
    (CHR '' '', [''     '',
                 ''     '',
                 ''     '',
                 ''     '',
                 ''     '',
                 ''     '',
                 ''     '',
                 ''     '',
                 ''     '',
                 ''     '',
                 ''     '']),
    (CHR ''.'', [''   '',
                 ''   '',
                 ''   '',
                 ''   '',
                 ''   '',
                 ''   '',
                 ''   '',
                 ''   '',
                 ''## '',
                 ''## '',
                 ''   '']),
    (CHR ''?'', ['' #####  '',
                 ''####### '',
                 ''##   ## '',
                 ''     ## '',
                 ''    ##  '',
                 ''   ##   '',
                 ''   ##   '',
                 ''   ##   '',
                 ''        '',
                 ''   ##   '',
                 ''        ''])]"

text \<open>The tuple of fonts, \<^verbatim>\<open>CHAR_SETS\<close>.\<close>

definition CHAR_SETS :: "char_set list" where
  "CHAR_SETS = [CHAR_SET1, CHAR_SET2, CHAR_SET3, CHAR_SET4]"

text \<open>
  A glyph is a rectangular grid when all its rows have the width of the first one; its
  width is then that number (and \<open>None\<close> for a missing, empty or ragged glyph).
\<close>

definition glyph_rectangular :: "glyph \<Rightarrow> bool" where
  "glyph_rectangular g = list_all (\<lambda>r. length r = length (hd g)) g"

definition glyph_width :: "char_set \<Rightarrow> char \<Rightarrow> nat option" where
  "glyph_width cs c =
     (case map_of cs c of
        None \<Rightarrow> None
      | Some g \<Rightarrow> if g \<noteq> [] \<and> glyph_rectangular g then Some (length (hd g)) else None)"

text \<open>The characters a reading is made of: the ten digits, the minus sign, the point,
  and the glyph that stands in for a character the font lacks.\<close>

definition reading_chars :: string where
  "reading_chars = ''0123456789-.?''"


section \<open>Python values\<close>

text \<open>
  The exceptions the modelled code can raise. \<open>NonAsciiByte\<close> is not a Python
  exception: it marks the edge of the model of \<^verbatim>\<open>bytes.decode('utf8')\<close> (see
  \<open>decode_utf8\<close> below).
\<close>

datatype pyerr = TypeError | ValueError | KeyError | OverflowError | CursesError | NonAsciiByte

text \<open>
  A Python \<^verbatim>\<open>float\<close> is an IEEE 754 binary64 number. A finite one is kept as its sign,
  its 53-bit significand \<open>m\<close> and its exponent \<open>e\<close>, with the value \<open>m * 2 ^ e\<close>:
  \<open>2 ^ 52 \<le> m < 2 ^ 53\<close> and \<open>- 1074 \<le> e \<le> 971\<close> for a normal number,
  \<open>m < 2 ^ 52\<close> and \<open>e = - 1074\<close> for a subnormal number or zero. The other
  constructor is the infinity of either sign (a decimal literal of some four hundred
  digits converts to it). No operation of the program yields a NaN.
\<close>

datatype pyfloat = Finite bool nat int | Infinite bool

text \<open>The attribute \<^verbatim>\<open>number\<close> holds an \<^verbatim>\<open>int\<close>, a \<^verbatim>\<open>float\<close> or a \<^verbatim>\<open>str\<close>.\<close>

datatype pyval = PyInt int | PyFloat pyfloat | PyStr string

fun bitlen :: "nat \<Rightarrow> nat" where
  "bitlen n = (if n = 0 then 0 else Suc (bitlen (n div 2)))"

declare bitlen.simps [simp del]

text \<open>The integer nearest to \<open>n / d\<close>, a tie going to the even one.\<close>

definition round_half_even :: "nat \<Rightarrow> nat \<Rightarrow> nat" where
  "round_half_even n d =
     (let q = n div d; r = n mod d
      in if 2 * r < d then q
         else if d < 2 * r then q + 1
         else if even q then q else q + 1)"

text \<open>
  The binary64 number nearest to the fraction \<open>n / d\<close> (\<open>0 < d\<close>) with the given sign,
  ties to the even significand: the conversion that \<^verbatim>\<open>float(s)\<close> performs on a decimal
  literal and \<^verbatim>\<open>float(i)\<close> on an integer (both are correctly rounded in CPython).
  \<open>lg\<close> is the exponent of the leading bit of \<open>n / d\<close>; the significand is
  \<open>n / d\<close> scaled by \<open>2 ^ - e\<close> and rounded, and when rounding carries it to
  \<open>2 ^ 53\<close> the exponent moves up by one. A result beyond the largest finite
  number is the infinity.
\<close>

definition float_of_fraction :: "bool \<Rightarrow> nat \<Rightarrow> nat \<Rightarrow> pyfloat" where
  "float_of_fraction neg n d =
     (if n = 0 then Finite neg 0 (- 1074)
      else
        let k = int (bitlen n) - int (bitlen d);
            lg = (if (if 0 \<le> k then d * 2 ^ nat k \<le> n else d \<le> n * 2 ^ nat (- k))
                  then k else k - 1);
            e = max (lg - 52) (- 1074);
            m = (if e < 0 then round_half_even (n * 2 ^ nat (- e)) d
                 else round_half_even n (d * 2 ^ nat e));
            m' = (if m = 2 ^ 53 then 2 ^ 52 else m);
            e' = (if m = 2 ^ 53 then e + 1 else e)
        in if 971 < e' then Infinite neg else Finite neg m' e')"

text \<open>The number a string of decimal digits denotes, and the digits of a number.\<close>

definition digit_val :: "char \<Rightarrow> nat" where
  "digit_val c = of_char c - 48"

definition nat_of_digits :: "string \<Rightarrow> nat" where
  "nat_of_digits s = foldl (\<lambda>a c. 10 * a + digit_val c) 0 s"

definition digit_char :: "nat \<Rightarrow> char" where
  "digit_char k = char_of (48 + k)"

function str_nat :: "nat \<Rightarrow> string" where
  "str_nat n = (if n < 10 then [digit_char n] else str_nat (n div 10) @ [digit_char (n mod 10)])"
  by pat_completeness auto
termination
  by (relation "measure id") auto

declare str_nat.simps [simp del]

text \<open>
  \<^verbatim>\<open>float(s)\<close> for a string of the form the program passes to it: the text of the
  group \<^verbatim>\<open>number\<close> of the pattern, an optional minus sign, digits, a point, digits.
  (\<^verbatim>\<open>float\<close> accepts more forms, exponents among them; it never receives them here,
  and the definition says nothing sensible about them.)
\<close>

definition float_of_literal :: "string \<Rightarrow> pyfloat" where
  "float_of_literal s =
     (let neg = (s \<noteq> [] \<and> hd s = CHR ''-'');
          body = (if neg then tl s else s);
          ip = takeWhile (\<lambda>c. c \<noteq> CHR ''.'') body;
          fp = drop 1 (dropWhile (\<lambda>c. c \<noteq> CHR ''.'') body)
      in float_of_fraction neg (nat_of_digits (ip @ fp)) (10 ^ length fp))"

text \<open>The comparison \<^verbatim>\<open>x < 0\<close> and \<^verbatim>\<open>abs(x)\<close> on floats: minus zero is not below
  zero.\<close>

fun float_lt_zero :: "pyfloat \<Rightarrow> bool" where
  "float_lt_zero (Finite s m e) = (s \<and> m \<noteq> 0)"
| "float_lt_zero (Infinite s) = s"

fun float_abs :: "pyfloat \<Rightarrow> pyfloat" where
  "float_abs (Finite s m e) = Finite False m e"
| "float_abs (Infinite s) = Infinite False"

text \<open>The same on any value; a \<^verbatim>\<open>str\<close> does not compare with an \<^verbatim>\<open>int\<close> and has
  no absolute value.\<close>

fun py_lt_zero :: "pyval \<Rightarrow> pyerr + bool" where
  "py_lt_zero (PyInt i) = Inr (i < 0)"
| "py_lt_zero (PyFloat x) = Inr (float_lt_zero x)"
| "py_lt_zero (PyStr s) = Inl TypeError"

fun py_abs :: "pyval \<Rightarrow> pyerr + pyval" where
  "py_abs (PyInt i) = Inr (PyInt \<bar>i\<bar>)"
| "py_abs (PyFloat x) = Inr (PyFloat (float_abs x))"
| "py_abs (PyStr s) = Inl TypeError"

text \<open>
  The format \<^verbatim>\<open>0.<d>f\<close> of a float: the decimal expansion with \<open>d\<close> digits after
  the point of the exact binary value, correctly rounded, ties to even (no width is
  given, so the zero flag pads nothing). \<open>scaled d m e\<close> is the value \<open>m * 2 ^ e\<close>
  times \<open>10 ^ d\<close>, rounded to an integer.
\<close>

definition pad_zeros :: "nat \<Rightarrow> string \<Rightarrow> string" where
  "pad_zeros d s = replicate (d - length s) CHR ''0'' @ s"

definition scaled :: "nat \<Rightarrow> nat \<Rightarrow> int \<Rightarrow> nat" where
  "scaled d m e =
     (if 0 \<le> e then m * 2 ^ nat e * 10 ^ d
      else round_half_even (m * 10 ^ d) (2 ^ nat (- e)))"

fun format_f :: "nat \<Rightarrow> pyfloat \<Rightarrow> string" where
  "format_f d (Infinite s) = (if s then ''-inf'' else ''inf'')"
| "format_f d (Finite s m e) =
     (let q = scaled d m e
      in (if s then ''-'' else [])
         @ str_nat (q div 10 ^ d)
         @ (if d = 0 then [] else CHR ''.'' # pad_zeros d (str_nat (q mod 10 ^ d))))"

text \<open>
  The same format applied to any value: an \<^verbatim>\<open>int\<close> is converted to a float first
  (\<^verbatim>\<open>OverflowError\<close> when it is too large), a \<^verbatim>\<open>str\<close> has no format code \<^verbatim>\<open>f\<close>.
\<close>

fun py_format_f :: "nat \<Rightarrow> pyval \<Rightarrow> pyerr + string" where
  "py_format_f d (PyFloat x) = Inr (format_f d x)"
| "py_format_f d (PyInt i) =
     (case float_of_fraction (i < 0) (nat \<bar>i\<bar>) 1 of
        Infinite s \<Rightarrow> Inl OverflowError
      | Finite s m e \<Rightarrow> Inr (format_f d (Finite s m e)))"
| "py_format_f d (PyStr s) = Inl ValueError"


section \<open>The curses window\<close>

text \<open>
  The curses library is not part of the program. The model keeps of a window what the
  program depends on: its size, the cursor, and the cells, each a character (a Unicode
  code point) with the number of its colour pair (0 for none). It follows the ncurses
  manual pages for a window that does not scroll (\<^verbatim>\<open>scrollok\<close> is never called):
  \<^item> \<^verbatim>\<open>move(y, x)\<close> fails when the position is outside the window;
  \<^item> \<^verbatim>\<open>addch\<close> writes at the cursor and advances it, wrapping at the right margin to
    the start of the next line; in the bottom right corner the character is written,
    the cursor stays and the call fails;
  \<^item> \<^verbatim>\<open>addstr(y, x, s)\<close> moves and then adds the characters until one fails;
  \<^item> \<^verbatim>\<open>clrtoeol\<close>, \<^verbatim>\<open>clrtobot\<close> and \<^verbatim>\<open>refresh\<close> do not fail.
  A call that fails raises \<^verbatim>\<open>curses.error\<close> in Python. Every call returns the window
  as the call leaves it together with a flag, \<open>True\<close> for success, since the program
  goes on with the window after it has caught the exception. Every character the
  program writes is taken to fill one cell.
\<close>

type_synonym uchar = nat

type_synonym cell = "uchar \<times> nat"

record window =
  nlines :: nat
  ncols :: nat
  cur_y :: nat
  cur_x :: nat
  cells :: "nat \<times> nat \<Rightarrow> cell"

definition blank_cell :: cell where
  "blank_cell = (32, 0)"

definition getmaxyx :: "window \<Rightarrow> int \<times> int" where
  "getmaxyx w = (int (nlines w), int (ncols w))"

definition getyx :: "window \<Rightarrow> int \<times> int" where
  "getyx w = (int (cur_y w), int (cur_x w))"

definition move :: "int \<Rightarrow> int \<Rightarrow> window \<Rightarrow> window \<times> bool" where
  "move y x w =
     (if 0 \<le> y \<and> y < int (nlines w) \<and> 0 \<le> x \<and> x < int (ncols w)
      then (w\<lparr>cur_y := nat y, cur_x := nat x\<rparr>, True)
      else (w, False))"

definition addch :: "uchar \<Rightarrow> nat \<Rightarrow> window \<Rightarrow> window \<times> bool" where
  "addch c attr w =
     (let w' = w\<lparr>cells := (cells w)((cur_y w, cur_x w) := (c, attr))\<rparr>
      in if cur_x w + 1 < ncols w then (w'\<lparr>cur_x := cur_x w + 1\<rparr>, True)
         else if cur_y w + 1 < nlines w then (w'\<lparr>cur_y := cur_y w + 1, cur_x := 0\<rparr>, True)
         else (w', False))"

definition clrtoeol :: "window \<Rightarrow> window \<times> bool" where
  "clrtoeol w =
     (w\<lparr>cells := (\<lambda>(y, x). if y = cur_y w \<and> cur_x w \<le> x then blank_cell else cells w (y, x))\<rparr>,
      True)"

definition clrtobot :: "window \<Rightarrow> window \<times> bool" where
  "clrtobot w =
     (w\<lparr>cells := (\<lambda>(y, x). if (y = cur_y w \<and> cur_x w \<le> x) \<or> cur_y w < y
                          then blank_cell else cells w (y, x))\<rparr>,
      True)"

text \<open>
  Calls in sequence inside one \<^verbatim>\<open>try\<close> block: the first that fails raises, and the
  calls after it do not run.
\<close>

definition and_then :: "window \<times> bool \<Rightarrow> (window \<Rightarrow> window \<times> bool) \<Rightarrow> window \<times> bool" where
  "and_then r f = (if snd r then f (fst r) else r)"

primrec addchs :: "string \<Rightarrow> window \<Rightarrow> window \<times> bool" where
  "addchs [] w = (w, True)"
| "addchs (c # cs) w = and_then (addch (of_char c) 0 w) (addchs cs)"

definition addstr :: "int \<Rightarrow> int \<Rightarrow> string \<Rightarrow> window \<Rightarrow> window \<times> bool" where
  "addstr y x s w = and_then (move y x w) (addchs s)"

text \<open>The cursor is inside a window that has at least one cell.\<close>

definition window_ok :: "window \<Rightarrow> bool" where
  "window_ok w = (cur_y w < nlines w \<and> cur_x w < ncols w)"

text \<open>A call keeps the size of the window, and a cursor that was inside stays inside.\<close>

definition keeps :: "window \<Rightarrow> window \<Rightarrow> bool" where
  "keeps w w' = (nlines w' = nlines w \<and> ncols w' = ncols w \<and> (window_ok w \<longrightarrow> window_ok w'))"


section \<open>The display: class \<^verbatim>\<open>IndicatorDisplay\<close>\<close>

text \<open>
  The characters that draw a filled cell, \<^verbatim>\<open>BASE_CHARACTERS\<close>, as code points: the
  blank, the hash sign, U+2022, U+2B24, U+23FA, U+25CF, U+2B29 and U+2666.
\<close>

definition BASE_CHARACTERS :: "uchar list" where
  "BASE_CHARACTERS = [0x20, 0x23, 0x2022, 0x2B24, 0x23FA, 0x25CF, 0x2B29, 0x2666]"

definition COLOR_POSITIVE :: nat where "COLOR_POSITIVE = 0x2E"
definition COLOR_NEGATIVE :: nat where "COLOR_NEGATIVE = 0xC4"
definition COLOR_BLACK :: nat where "COLOR_BLACK = 0"

definition COLOR_PAIR_GRN_ON_GRN :: nat where "COLOR_PAIR_GRN_ON_GRN = 1"
definition COLOR_PAIR_RED_ON_RED :: nat where "COLOR_PAIR_RED_ON_RED = 2"
definition COLOR_PAIR_GRN_ON_BLK :: nat where "COLOR_PAIR_GRN_ON_BLK = 3"
definition COLOR_PAIR_RED_ON_BLK :: nat where "COLOR_PAIR_RED_ON_BLK = 4"

text \<open>
  The colour pairs that \<^verbatim>\<open>__init__\<close> registers with \<^verbatim>\<open>curses.init_pair\<close>: the
  foreground and the background of each pair number.
\<close>

definition init_pairs :: "(nat \<times> nat \<times> nat) list" where
  "init_pairs =
     [(COLOR_PAIR_GRN_ON_GRN, COLOR_POSITIVE, COLOR_POSITIVE),
      (COLOR_PAIR_RED_ON_RED, COLOR_NEGATIVE, COLOR_NEGATIVE),
      (COLOR_PAIR_GRN_ON_BLK, COLOR_POSITIVE, COLOR_BLACK),
      (COLOR_PAIR_RED_ON_BLK, COLOR_NEGATIVE, COLOR_BLACK)]"

text \<open>A pair is a negative (a positive) one when its foreground is the negative (the
  positive) colour.\<close>

definition negative_pair :: "nat \<Rightarrow> bool" where
  "negative_pair p = (map_option fst (map_of init_pairs p) = Some COLOR_NEGATIVE)"

definition positive_pair :: "nat \<Rightarrow> bool" where
  "positive_pair p = (map_option fst (map_of init_pairs p) = Some COLOR_POSITIVE)"

record display =
  stdscr :: window
  pair_positive :: nat
  pair_negative :: nat
  color_pair :: nat
  char_set :: char_set
  base_char :: uchar
  number :: pyval
  unit :: string

text \<open>\<^verbatim>\<open>__init__\<close>, on the window that \<^verbatim>\<open>curses.initscr()\<close> returns.\<close>

definition IndicatorDisplay_init :: "window \<Rightarrow> display" where
  "IndicatorDisplay_init scr =
     \<lparr>stdscr = scr,
      pair_positive = COLOR_PAIR_GRN_ON_BLK,
      pair_negative = COLOR_PAIR_RED_ON_BLK,
      color_pair = COLOR_PAIR_GRN_ON_BLK,
      char_set = CHAR_SETS ! 0,
      base_char = BASE_CHARACTERS ! 4,
      number = PyInt 0,
      unit = ''mm''\<rparr>"

text \<open>
  \<^verbatim>\<open>_foot_note\<close>: the two lines of help at the bottom of the window, in one
  \<^verbatim>\<open>try\<close> block whose \<^verbatim>\<open>curses.error\<close> is dropped.
\<close>

definition foot_note :: "window \<Rightarrow> window" where
  "foot_note w =
     (let (rows, cols) = getmaxyx w
      in fst (and_then
                (and_then (addstr (rows - 2) 0 ''<ESC> or <EOT> to exit'' w)
                          (addstr (rows - 1) 0 ''F1 - Change font, F2 - Change style''))
                clrtobot))"

text \<open>
  \<^verbatim>\<open>_display_char\<close>. The inner loop over the cells of one row: a cell other than a
  blank is drawn with the fill character in the current colour pair, a blank as it is;
  \<^verbatim>\<open>clrtoeol\<close> follows each.
\<close>

primrec draw_cells :: "uchar \<Rightarrow> nat \<Rightarrow> string \<Rightarrow> window \<Rightarrow> window \<times> bool" where
  "draw_cells b p [] w = (w, True)"
| "draw_cells b p (d # ds) w =
     and_then
       (and_then (if d \<noteq> CHR '' '' then addch b p w else addch (of_char d) 0 w) clrtoeol)
       (draw_cells b p ds)"

text \<open>The outer loop over the rows: each row is one \<^verbatim>\<open>try\<close> block, and the row
  number goes up whether the block failed or not.\<close>

primrec draw_rows :: "uchar \<Rightarrow> nat \<Rightarrow> int \<Rightarrow> glyph \<Rightarrow> int \<Rightarrow> window \<Rightarrow> window" where
  "draw_rows b p start_col [] row w = w"
| "draw_rows b p start_col (line # display) row w =
     draw_rows b p start_col display (row + 1)
       (fst (and_then (move row start_col w) (draw_cells b p line)))"

text \<open>
  The glyph is that of the character or, for a character the font lacks, that of the
  question mark, which is looked up first (\<^verbatim>\<open>self.char_set['?']\<close> is an argument of
  \<^verbatim>\<open>get\<close>). The last \<^verbatim>\<open>move\<close>, to the first row and the column after the glyph,
  is outside every \<^verbatim>\<open>try\<close>.
\<close>

definition display_char :: "display \<Rightarrow> char \<Rightarrow> pyerr + display" where
  "display_char self ch =
     (let (row, start_col) = getyx (stdscr self);
          start_row = row
      in case map_of (char_set self) CHR ''?'' of
           None \<Rightarrow> Inl KeyError
         | Some fallback \<Rightarrow>
             let display = (case map_of (char_set self) ch of Some g \<Rightarrow> g | None \<Rightarrow> fallback);
                 w = draw_rows (base_char self) (color_pair self) start_col display row
                       (stdscr self);
                 (_, end_col) = getyx w;
                 (w', ok) = move start_row end_col w
             in if ok then Inr (self\<lparr>stdscr := w'\<rparr>) else Inl CursesError)"

fun display_chars :: "display \<Rightarrow> string \<Rightarrow> pyerr + display" where
  "display_chars self [] = Inr self"
| "display_chars self (ch # s) =
     (case display_char self ch of
        Inl e \<Rightarrow> Inl e
      | Inr self' \<Rightarrow> display_chars self' s)"

text \<open>
  \<^verbatim>\<open>update_page\<close>. The text of the reading, \<^verbatim>\<open>num_str\<close>, is the sign, the magnitude
  with two decimals for millimetres and four otherwise, a blank and the unit; the colour
  pair follows the sign. A missing glyph of the digit 0 is a \<^verbatim>\<open>KeyError\<close>, which the
  \<^verbatim>\<open>except curses.error\<close> around it does not catch. The closing \<^verbatim>\<open>refresh\<close> sends
  the window to the terminal and leaves the window as it is.
\<close>

definition num_str :: "display \<Rightarrow> pyerr + string" where
  "num_str self =
     (let d = (if unit self = ''mm'' then 2 else 4);
          n = number self
      in case py_lt_zero n of
           Inl e \<Rightarrow> Inl e
         | Inr neg \<Rightarrow>
             let sign = (if neg then CHR ''-'' else CHR '' '')
             in case py_abs n of
                  Inl e \<Rightarrow> Inl e
                | Inr a \<Rightarrow>
                    (case py_format_f d a of
                       Inl e \<Rightarrow> Inl e
                     | Inr s \<Rightarrow> Inr (sign # s @ '' '' @ unit self)))"

definition update_page :: "display \<Rightarrow> pyerr + display" where
  "update_page self =
     (case py_lt_zero (number self) of
        Inl e \<Rightarrow> Inl e
      | Inr neg \<Rightarrow>
          let sign = (if neg then CHR ''-'' else CHR '' '');
              self1 = self\<lparr>color_pair :=
                        (if sign = CHR ''-'' then pair_negative self else pair_positive self)\<rparr>
          in case num_str self of
               Inl e \<Rightarrow> Inl e
             | Inr s \<Rightarrow>
                 let (w, ok) = move 0 0 (stdscr self1)
                 in if \<not> ok then Inl CursesError
                    else case display_chars (self1\<lparr>stdscr := w\<rparr>) s of
                           Inl e \<Rightarrow> Inl e
                         | Inr self2 \<Rightarrow>
                             (case map_of (char_set self2) CHR ''0'' of
                                None \<Rightarrow> Inl KeyError
                              | Some zero \<Rightarrow>
                                  let w3 = fst (and_then (move (int (length zero)) 0 (stdscr self2))
                                                  clrtobot)
                                  in Inr (self2\<lparr>stdscr := foot_note w3\<rparr>)))"


section \<open>The line pattern and \<^verbatim>\<open>display_number\<close>\<close>

text \<open>
  The classes \<^verbatim>\<open>\d\<close> and \<^verbatim>\<open>\s\<close> of a pattern over \<^verbatim>\<open>str\<close>, on the code points
  below 256 that a \<open>char\<close> stands for: the decimal digits there are the ASCII ones;
  the white space is tab to carriage return, the four separators FS to US, the blank,
  NEL and the no-break space (\<^verbatim>\<open>str.isspace\<close>).
\<close>

definition is_digit :: "char \<Rightarrow> bool" where
  "is_digit c = (let n = (of_char c :: nat) in 48 \<le> n \<and> n \<le> 57)"

definition is_space :: "char \<Rightarrow> bool" where
  "is_space c =
     (let n = (of_char c :: nat)
      in (9 \<le> n \<and> n \<le> 13) \<or> (28 \<le> n \<and> n \<le> 32) \<or> n = 0x85 \<or> n = 0xA0)"

text \<open>
  \<^verbatim>\<open>INDICATOR_RE.match(line)\<close> for the pattern
  \<^verbatim>\<open>(?P<number>-?\d+\.\d+)\s+(?P<unit>\S+)\<close>: the match is anchored at the start of
  the line only, and the result is the pair of the groups \<^verbatim>\<open>number\<close> and
  \<^verbatim>\<open>unit\<close>. Every repetition of the pattern is greedy and is followed by a character
  outside its class (or by nothing), so giving back characters never helps and the
  backtracking matcher finds what this scan from left to right finds.
\<close>

definition INDICATOR_RE_match :: "string \<Rightarrow> (string \<times> string) option" where
  "INDICATOR_RE_match line =
     (let sg = (if line \<noteq> [] \<and> hd line = CHR ''-'' then ''-'' else []);
          r0 = drop (length sg) line;
          ip = takeWhile is_digit r0;
          r1 = dropWhile is_digit r0
      in if ip = [] then None
         else case r1 of
           [] \<Rightarrow> None
         | c # r2 \<Rightarrow>
             if c \<noteq> CHR ''.'' then None
             else
               let fp = takeWhile is_digit r2;
                   r3 = dropWhile is_digit r2;
                   ws = takeWhile is_space r3;
                   r4 = dropWhile is_space r3;
                   tok = takeWhile (\<lambda>c. \<not> is_space c) r4
               in if fp = [] \<or> ws = [] \<or> tok = [] then None
                  else Some (sg @ ip @ ''.'' @ fp, tok))"

text \<open>
  \<^verbatim>\<open>display_number\<close>: a line that does not match stores the \<^verbatim>\<open>str\<close> \<^verbatim>\<open>'9.999'\<close>
  and the unit \<^verbatim>\<open>'xx'\<close>; a line that matches stores the float of the number and the unit
  \<^verbatim>\<open>'mm'\<close> or \<^verbatim>\<open>'in'\<close>. Then the page is painted.
\<close>

definition display_number :: "display \<Rightarrow> string \<Rightarrow> pyerr + display" where
  "display_number self line =
     (case INDICATOR_RE_match line of
        None \<Rightarrow> update_page (self\<lparr>number := PyStr ''9.999'', unit := ''xx''\<rparr>)
      | Some (num, u) \<Rightarrow>
          update_page (self\<lparr>number := PyFloat (float_of_literal num),
                            unit := (if u = ''mm'' then ''mm'' else ''in'')\<rparr>))"

section \<open>The keys F1 and F2\<close>

text \<open>\<^verbatim>\<open>tuple.index\<close>: the first position of an equal element, a \<^verbatim>\<open>ValueError\<close> when
  there is none.\<close>

fun index_from :: "nat \<Rightarrow> 'a list \<Rightarrow> 'a \<Rightarrow> pyerr + nat" where
  "index_from i [] x = Inl ValueError"
| "index_from i (y # ys) x = (if y = x then Inr i else index_from (i + 1) ys x)"

definition index :: "'a list \<Rightarrow> 'a \<Rightarrow> pyerr + nat" where
  "index xs x = index_from 0 xs x"

definition handle_f1 :: "display \<Rightarrow> pyerr + display" where
  "handle_f1 self =
     (case index CHAR_SETS (char_set self) of
        Inl e \<Rightarrow> Inl e
      | Inr i \<Rightarrow>
          let i' = (i + 1) mod length CHAR_SETS
          in update_page (self\<lparr>char_set := CHAR_SETS ! i'\<rparr>))"

definition handle_f2 :: "display \<Rightarrow> pyerr + display" where
  "handle_f2 self =
     (case index BASE_CHARACTERS (base_char self) of
        Inl e \<Rightarrow> Inl e
      | Inr i \<Rightarrow>
          let i' = (i + 1) mod length BASE_CHARACTERS;
              self1 = self\<lparr>base_char := BASE_CHARACTERS ! i'\<rparr>;
              self2 = (if base_char self1 = 0x20
                       then self1\<lparr>pair_positive := COLOR_PAIR_GRN_ON_GRN,
                                  pair_negative := COLOR_PAIR_RED_ON_RED\<rparr>
                       else self1\<lparr>pair_positive := COLOR_PAIR_GRN_ON_BLK,
                                  pair_negative := COLOR_PAIR_RED_ON_BLK\<rparr>)
          in update_page self2)"

text \<open>A handler applied \<open>k\<close> times in a row, stopping at the first exception.\<close>

fun repeated :: "nat \<Rightarrow> (display \<Rightarrow> pyerr + display) \<Rightarrow> display \<Rightarrow> pyerr + display" where
  "repeated 0 f self = Inr self"
| "repeated (Suc k) f self =
     (case f self of
        Inl e \<Rightarrow> Inl e
      | Inr self' \<Rightarrow> repeated k f self')"


section \<open>The keyboard: \<^verbatim>\<open>get_input\<close>\<close>

text \<open>
  \<^verbatim>\<open>get_wch\<close> returns a one-character \<^verbatim>\<open>str\<close> or the \<^verbatim>\<open>int\<close> code of a key, and
  raises \<^verbatim>\<open>curses.error\<close> when there is no input (\<open>None\<close> below). The codes are
  those of ncurses.
\<close>

datatype wch = WStr uchar | WInt int

definition KEY_RESIZE :: int where "KEY_RESIZE = 410"
definition KEY_F1 :: int where "KEY_F1 = 265"
definition KEY_F2 :: int where "KEY_F2 = 266"
definition ESC :: nat where "ESC = 27"
definition EOT :: nat where "EOT = 4"

text \<open>The result is \<open>True\<close> when the loop is to end (\<^verbatim>\<open>None\<close> counts as false).\<close>

definition get_input :: "display \<Rightarrow> wch option \<Rightarrow> pyerr + (bool \<times> display)" where
  "get_input self got =
     (case got of
        None \<Rightarrow> Inr (False, self)
      | Some wch \<Rightarrow>
          if wch = WInt 0 then Inr (False, self)
          else if (case wch of WStr c \<Rightarrow> c < 32 \<and> (c = ESC \<or> c = EOT) | WInt k \<Rightarrow> False)
          then Inr (True, self)
          else if wch = WInt KEY_RESIZE then map_sum id (Pair False) (update_page self)
          else if wch = WInt KEY_F1 then map_sum id (Pair False) (handle_f1 self)
          else if wch = WInt KEY_F2 then map_sum id (Pair False) (handle_f2 self)
          else Inr (False, self))"

section \<open>The event loop: \<^verbatim>\<open>IndicatorReader.select_loop\<close>\<close>

text \<open>
  \<^verbatim>\<open>chars.decode('utf8')\<close> on bytes below 128, which decode to themselves. What the
  decoder does with a byte from 128 on (a character beyond ASCII, or a
  \<^verbatim>\<open>UnicodeDecodeError\<close>) is outside the model and shows as \<open>NonAsciiByte\<close>.
\<close>

definition decode_utf8 :: "char list \<Rightarrow> pyerr + string" where
  "decode_utf8 bs = (if list_all (\<lambda>b. (of_char b :: nat) < 128) bs then Inr bs else Inl NonAsciiByte)"

text \<open>
  The variables of the loop: the display \<^verbatim>\<open>id\<close> and the text \<^verbatim>\<open>line\<close> received
  so far. \<open>calls\<close> is a history variable, not one of the program: the arguments of
  the calls of \<^verbatim>\<open>display_number\<close> that returned, oldest first.
\<close>

record loop_vars =
  disp :: display
  line :: string
  calls :: "string list"

text \<open>
  What \<^verbatim>\<open>select\<close> reports in one round of the loop: the serial port is readable and
  \<^verbatim>\<open>read_until\<close> returns these bytes, or it is not and \<^verbatim>\<open>get_wch\<close> returns this.
\<close>

datatype event = SerialReadable "char list" | InputReadable "wch option"

definition endswith_newline :: "string \<Rightarrow> bool" where
  "endswith_newline s = (s \<noteq> [] \<and> last s = CHR 0x0A)"

definition serial_readable :: "loop_vars \<Rightarrow> char list \<Rightarrow> pyerr + loop_vars" where
  "serial_readable v chars =
     (case (if chars \<noteq> [] then map_sum id (\<lambda>t. line v @ t) (decode_utf8 chars)
            else Inr (line v)) of
        Inl e \<Rightarrow> Inl e
      | Inr l \<Rightarrow>
          if endswith_newline l
          then (case display_number (disp v) l of
                  Inl e \<Rightarrow> Inl e
                | Inr d \<Rightarrow> Inr \<lparr>disp = d, line = [], calls = calls v @ [l]\<rparr>)
          else Inr (v\<lparr>line := l\<rparr>))"

text \<open>
  The loop over the rounds that \<^verbatim>\<open>select\<close> reports. It ends with \<open>True\<close> at the
  \<^verbatim>\<open>break\<close>, and with \<open>False\<close> when the events have run out, the program
  waiting in \<^verbatim>\<open>select\<close>.
\<close>

fun rounds :: "loop_vars \<Rightarrow> event list \<Rightarrow> pyerr + (bool \<times> loop_vars)" where
  "rounds v [] = Inr (False, v)"
| "rounds v (SerialReadable chars # evs) =
     (case serial_readable v chars of
        Inl e \<Rightarrow> Inl e
      | Inr v' \<Rightarrow> rounds v' evs)"
| "rounds v (InputReadable got # evs) =
     (case get_input (disp v) got of
        Inl e \<Rightarrow> Inl e
      | Inr (stop, d) \<Rightarrow> if stop then Inr (True, v\<lparr>disp := d\<rparr>) else rounds (v\<lparr>disp := d\<rparr>) evs)"

text \<open>
  What the process does that can be seen from outside: the texts it prints (the
  arguments of one \<^verbatim>\<open>print\<close>, joined by blanks) and the calls that take and give
  back the terminal, \<^verbatim>\<open>curses.initscr\<close> and \<^verbatim>\<open>curses.endwin\<close>. It ends by
  \<^verbatim>\<open>sys.exit(n)\<close> or by returning from \<^verbatim>\<open>main\<close> (\<open>Exit n\<close>, \<open>Exit 0\<close>), or by
  an exception nobody catches; or it has not ended yet.
\<close>

datatype effect = Print string | Initscr | Endwin

datatype outcome = Exit int | Traceback pyerr | Selecting

text \<open>The exit status that the operating system reports: the low eight bits of the
  argument of \<^verbatim>\<open>sys.exit\<close>, and 1 after an uncaught exception.\<close>

fun exit_status :: "outcome \<Rightarrow> int option" where
  "exit_status (Exit n) = Some (n mod 256)"
| "exit_status (Traceback e) = Some 1"
| "exit_status Selecting = None"

text \<open>
  \<^verbatim>\<open>select_loop\<close>. \<open>opened\<close> is what opening the serial port gives: the text of
  the \<^verbatim>\<open>IOError\<close> or the text that prints the port. The port is opened before the
  display is made; \<^verbatim>\<open>__exit__\<close> of the display calls \<^verbatim>\<open>endwin\<close> and lets an exception
  pass.
\<close>

definition select_loop :: "string + string \<Rightarrow> window \<Rightarrow> event list \<Rightarrow> effect list \<times> outcome" where
  "select_loop opened scr evs =
     (case opened of
        Inl error \<Rightarrow> ([Print (''Problem opening monitor:  '' @ error)], Exit (- 1))
      | Inr monitor \<Rightarrow>
          let start = [Initscr, Print ''Connected to: '', Print monitor]
          in case rounds \<lparr>disp = IndicatorDisplay_init scr, line = [], calls = []\<rparr> evs of
               Inl e \<Rightarrow> (start @ [Endwin], Traceback e)
             | Inr (stop, v) \<Rightarrow>
                 if stop then (start @ [Endwin], Exit 0) else (start, Selecting))"

section \<open>Start-up: \<^verbatim>\<open>GetPort\<close> and \<^verbatim>\<open>main\<close>\<close>

text \<open>
  \<^verbatim>\<open>GetPort\<close> on the list that \<^verbatim>\<open>list_ports.comports()\<close> returns, each entry a port
  with its description and hardware id: it leaves the process (\<open>Inl\<close>) or returns
  the only port.
\<close>

definition port_line :: "string \<times> string \<times> string \<Rightarrow> string" where
  "port_line p = (case p of (port, desc, hwid) \<Rightarrow>
     ''port='' @ port @ '', desc='' @ desc @ '', hwid='' @ hwid)"

definition GetPort :: "bool \<Rightarrow> (string \<times> string \<times> string) list \<Rightarrow> (effect list \<times> outcome) + string" where
  "GetPort list_only port_list =
     (case port_list of
        [] \<Rightarrow> Inl ([Print ''No ports found''], Exit 0)
      | first # others \<Rightarrow>
          if list_only \<or> 1 < length port_list
          then Inl (map (\<lambda>p. Print (port_line p)) port_list, Exit 0)
          else Inr (fst first))"

text \<open>The parsed command line, and what the process finds around it.\<close>

record args =
  list_ports :: bool
  port :: "string option"
  baudrate :: int

record environment =
  comports :: "(string \<times> string \<times> string) list"
  open_serial :: "string \<Rightarrow> int \<Rightarrow> string + string"
  initscr :: window
  events :: "event list"

text \<open>\<^verbatim>\<open>not args.port\<close> holds for \<^verbatim>\<open>None\<close> and for the empty string.\<close>

definition port_missing :: "string option \<Rightarrow> bool" where
  "port_missing p = (p = None \<or> p = Some [])"

definition main :: "args \<Rightarrow> environment \<Rightarrow> effect list \<times> outcome" where
  "main a env =
     (case (if list_ports a \<or> port_missing (port a)
            then GetPort (list_ports a) (comports env)
            else Inr (case port a of Some p \<Rightarrow> p | None \<Rightarrow> [])) of
        Inl left \<Rightarrow> left
      | Inr p \<Rightarrow> select_loop (open_serial env p (baudrate a)) (initscr env) (events env))"

section \<open>What holds between two events\<close>

text \<open>
  The number the display holds whenever the program has survived storing it: the
  \<^verbatim>\<open>int\<close> 0 of \<^verbatim>\<open>__init__\<close> or a \<^verbatim>\<open>float\<close>.
\<close>

fun stored_number :: "pyval \<Rightarrow> bool" where
  "stored_number (PyInt i) = (i = 0)"
| "stored_number (PyFloat x) = True"
| "stored_number (PyStr s) = False"

text \<open>
  The font is one of the four, the fill character one of the eight, the colour pairs
  are the ones that go with the fill character, and the cursor is inside the window.
\<close>

definition styled :: "display \<Rightarrow> bool" where
  "styled self =
     (window_ok (stdscr self)
      \<and> char_set self \<in> set CHAR_SETS
      \<and> base_char self \<in> set BASE_CHARACTERS
      \<and> pair_positive self =
          (if base_char self = 0x20 then COLOR_PAIR_GRN_ON_GRN else COLOR_PAIR_GRN_ON_BLK)
      \<and> pair_negative self =
          (if base_char self = 0x20 then COLOR_PAIR_RED_ON_RED else COLOR_PAIR_RED_ON_BLK))"

text \<open>Two terminals to try the program on, both blank with the cursor at the origin: the
  usual one of 24 lines and 80 columns, and one of 3 lines and 5 columns, smaller than
  any glyph of a digit.\<close>

definition blank_window :: "nat \<Rightarrow> nat \<Rightarrow> window" where
  "blank_window l c = \<lparr>nlines = l, ncols = c, cur_y = 0, cur_x = 0, cells = (\<lambda>p. blank_cell)\<rparr>"

definition terminal_24x80 :: window where
  "terminal_24x80 = blank_window 24 80"

definition terminal_3x5 :: window where
  "terminal_3x5 = blank_window 3 5"


section \<open>Properties of the glyph catalogue\<close>

lemma reading_glyphs_exist:
  "\<forall>cs \<in> set CHAR_SETS. \<forall>c \<in> set reading_chars. map_of cs c \<noteq> None"
  by code_simp

lemma glyphs_other_than_i_rectangular:
  "\<forall>cs \<in> set CHAR_SETS. \<forall>(c, g) \<in> set cs. c \<noteq> CHR ''i'' \<longrightarrow> glyph_rectangular g"
  by code_simp

text \<open>
  Claim C5. Every font has a glyph for each digit, for the minus sign, the point and the
  question mark (\<open>reading_glyphs_exist\<close>), and every glyph except one is a rectangular
  grid (\<open>glyphs_other_than_i_rectangular\<close>). The glyph of the letter i in the third
  and in the fourth font is not: its first row is two cells wide and the rows below it
  are three cells wide, so "every glyph is rectangular" fails there.
\<close>

theorem glyph_i_ragged:
  "map_option (map length) (map_of CHAR_SET3 CHR ''i'') = Some [2, 3, 3, 3, 3, 3, 3, 3, 3, 3]
   \<and> map_option (map length) (map_of CHAR_SET4 CHR ''i'') = Some [2, 3, 3, 3, 3, 3, 3, 3, 3, 3, 3]
   \<and> map_option glyph_rectangular (map_of CHAR_SET3 CHR ''i'') = Some False
   \<and> map_option glyph_rectangular (map_of CHAR_SET4 CHR ''i'') = Some False"
  by code_simp

text \<open>
  Claim C10. In every font the glyph of the blank and the glyph of the minus sign are
  rectangular and have the same width, so the reading keeps its columns when its sign
  changes.
\<close>

theorem space_and_minus_same_width:
  "\<forall>cs \<in> set CHAR_SETS.
     glyph_width cs CHR '' '' = glyph_width cs CHR ''-'' \<and> glyph_width cs CHR ''-'' \<noteq> None"
  by code_simp

theorem space_and_minus_same_width_witness:
  "CHAR_SET3 \<in> set CHAR_SETS
   \<and> glyph_width CHAR_SET3 CHR '' '' = Some 5 \<and> glyph_width CHAR_SET3 CHR ''-'' = Some 5"
proof -
  have m: "CHAR_SET3 \<in> set CHAR_SETS"
    by (simp add: CHAR_SETS_def)
  have w: "glyph_width CHAR_SET3 CHR ''-'' = Some 5"
    by code_simp
  from space_and_minus_same_width m
  have "glyph_width CHAR_SET3 CHR '' '' = glyph_width CHAR_SET3 CHR ''-''"
    by blast
  with m w show ?thesis
    by simp
qed


section \<open>The window calls keep the cursor inside\<close>

lemma keeps_refl: "keeps w w"
  by (simp add: keeps_def)

lemma keeps_trans: "keeps w w1 \<Longrightarrow> keeps w1 w2 \<Longrightarrow> keeps w w2"
  by (simp add: keeps_def)

lemma keeps_move: "keeps w (fst (move y x w))"
  by (auto simp: keeps_def move_def window_ok_def)

lemma keeps_addch: "keeps w (fst (addch c a w))"
  by (auto simp: keeps_def addch_def window_ok_def Let_def)

lemma keeps_clrtoeol: "keeps w (fst (clrtoeol w))"
  by (simp add: keeps_def clrtoeol_def window_ok_def)

lemma keeps_clrtobot: "keeps w (fst (clrtobot w))"
  by (simp add: keeps_def clrtobot_def window_ok_def)

lemma keeps_and_then:
  assumes "keeps w (fst r)" and "\<And>w1. keeps w1 (fst (f w1))"
  shows "keeps w (fst (and_then r f))"
proof (cases "snd r")
  case True
  then have "and_then r f = f (fst r)"
    by (simp add: and_then_def)
  with assms show ?thesis
    by (metis keeps_trans)
next
  case False
  with assms(1) show ?thesis
    by (simp add: and_then_def)
qed

lemma keeps_addchs: "keeps w (fst (addchs s w))"
proof (induction s arbitrary: w)
  case Nil
  show ?case by (simp add: keeps_refl)
next
  case (Cons c s)
  show ?case
    unfolding addchs.simps
    by (rule keeps_and_then [OF keeps_addch]) (rule Cons.IH)
qed

lemma keeps_addstr: "keeps w (fst (addstr y x s w))"
  unfolding addstr_def
  by (rule keeps_and_then [OF keeps_move]) (rule keeps_addchs)

lemma keeps_foot_note: "keeps w (foot_note w)"
  unfolding foot_note_def getmaxyx_def Let_def prod.case
  by (intro keeps_and_then keeps_addstr keeps_clrtobot)

lemma keeps_draw_cells: "keeps w (fst (draw_cells b p s w))"
proof (induction s arbitrary: w)
  case Nil
  show ?case by (simp add: keeps_refl)
next
  case (Cons d ds)
  have first: "keeps w (fst (and_then (if d \<noteq> CHR '' '' then addch b p w else addch (of_char d) 0 w) clrtoeol))"
    by (rule keeps_and_then) (simp_all add: keeps_addch keeps_clrtoeol)
  show ?case
    unfolding draw_cells.simps
    by (rule keeps_and_then [OF first]) (rule Cons.IH)
qed

lemma keeps_draw_rows: "keeps w (draw_rows b p c g row w)"
proof (induction g arbitrary: row w)
  case Nil
  show ?case by (simp add: keeps_refl)
next
  case (Cons l g)
  have "keeps w (fst (and_then (move row c w) (draw_cells b p l)))"
    by (rule keeps_and_then [OF keeps_move]) (rule keeps_draw_cells)
  then show ?case
    unfolding draw_rows.simps
    by (rule keeps_trans) (rule Cons.IH)
qed

section \<open>Painting the page does not fail\<close>

lemma display_char_returns:
  assumes ok: "window_ok (stdscr self)"
    and fallback: "map_of (char_set self) CHR ''?'' = Some q"
  shows "\<exists>w. display_char self ch = Inr (self\<lparr>stdscr := w\<rparr>) \<and> keeps (stdscr self) w"
proof -
  define g where "g = (case map_of (char_set self) ch of Some g \<Rightarrow> g | None \<Rightarrow> q)"
  define w1 where "w1 = draw_rows (base_char self) (color_pair self) (int (cur_x (stdscr self))) g
                          (int (cur_y (stdscr self))) (stdscr self)"
  define w2 where "w2 = w1\<lparr>cur_y := cur_y (stdscr self), cur_x := cur_x w1\<rparr>"
  have k1: "keeps (stdscr self) w1"
    unfolding w1_def by (rule keeps_draw_rows)
  with ok have in1: "cur_y (stdscr self) < nlines w1" "cur_x w1 < ncols w1"
    by (simp_all add: keeps_def window_ok_def)
  then have mv: "move (int (cur_y (stdscr self))) (int (cur_x w1)) w1 = (w2, True)"
    by (simp add: move_def w2_def)
  have "display_char self ch = Inr (self\<lparr>stdscr := w2\<rparr>)"
    using fallback mv
    by (simp add: display_char_def getyx_def Let_def g_def [symmetric] w1_def [symmetric])
  moreover have "keeps (stdscr self) w2"
    using k1 in1 by (simp add: keeps_def w2_def window_ok_def)
  ultimately show ?thesis
    by blast
qed

lemma display_chars_returns:
  assumes "window_ok (stdscr self)" and "map_of (char_set self) CHR ''?'' = Some q"
  shows "\<exists>w. display_chars self s = Inr (self\<lparr>stdscr := w\<rparr>) \<and> keeps (stdscr self) w"
  using assms
proof (induction s arbitrary: self)
  case Nil
  have "self\<lparr>stdscr := stdscr self\<rparr> = self"
    by simp
  then show ?case
    by (metis display_chars.simps(1) keeps_refl)
next
  case (Cons ch s)
  from display_char_returns [OF Cons.prems]
  obtain w where w: "display_char self ch = Inr (self\<lparr>stdscr := w\<rparr>)" "keeps (stdscr self) w"
    by blast
  with Cons.prems have "window_ok (stdscr (self\<lparr>stdscr := w\<rparr>))"
      "map_of (char_set (self\<lparr>stdscr := w\<rparr>)) CHR ''?'' = Some q"
    by (simp_all add: keeps_def)
  from Cons.IH [OF this]
  obtain w' where w': "display_chars (self\<lparr>stdscr := w\<rparr>) s = Inr (self\<lparr>stdscr := w'\<rparr>)"
      "keeps w w'"
    by auto
  from w w' show ?case
    by (auto intro: keeps_trans)
qed


lemma num_str_float:
  "number self = PyFloat x \<Longrightarrow>
   num_str self =
     Inr ((if float_lt_zero x then CHR ''-'' else CHR '' '')
          # format_f (if unit self = ''mm'' then 2 else 4) (float_abs x) @ '' '' @ unit self)"
  by (simp add: num_str_def)

lemma num_str_zero:
  "number self = PyInt 0 \<Longrightarrow>
   num_str self =
     Inr (CHR '' '' # format_f (if unit self = ''mm'' then 2 else 4) (Finite False 0 (- 1074))
          @ '' '' @ unit self)"
  by (simp add: num_str_def float_of_fraction_def)

lemma stored_number_cases:
  assumes "stored_number v"
  obtains "v = PyInt 0" | x where "v = PyFloat x"
  using assms by (cases v) auto

lemma stored_number_formats:
  assumes "stored_number (number self)"
  shows "\<exists>neg s. py_lt_zero (number self) = Inr neg \<and> num_str self = Inr s"
  using assms
proof (cases rule: stored_number_cases)
  case 1
  then show ?thesis
    by (auto simp: num_str_zero)
next
  case (2 x)
  then show ?thesis
    by (simp add: num_str_float)
qed

lemma move_origin: "window_ok w \<Longrightarrow> move 0 0 w = (w\<lparr>cur_y := 0, cur_x := 0\<rparr>, True)"
  by (auto simp: move_def window_ok_def)

lemma update_page_returns:
  assumes ok: "window_ok (stdscr self)"
    and fallback: "map_of (char_set self) CHR ''?'' = Some q"
    and zero: "map_of (char_set self) CHR ''0'' = Some z"
    and neg: "py_lt_zero (number self) = Inr neg"
    and str: "num_str self = Inr s"
  shows "\<exists>w. update_page self
               = Inr (self\<lparr>color_pair := (if neg then pair_negative self else pair_positive self),
                          stdscr := w\<rparr>)
             \<and> keeps (stdscr self) w"
proof -
  define cp where "cp = (if neg then pair_negative self else pair_positive self)"
  define w0 where "w0 = (stdscr self)\<lparr>cur_y := 0, cur_x := 0\<rparr>"
  define self1 where "self1 = self\<lparr>color_pair := cp, stdscr := w0\<rparr>"
  have k0: "keeps (stdscr self) w0"
    using ok by (simp add: keeps_def w0_def window_ok_def)
  have ok1: "window_ok (stdscr self1)" and fb1: "map_of (char_set self1) CHR ''?'' = Some q"
    using ok fallback by (simp_all add: self1_def w0_def window_ok_def)
  from display_chars_returns [OF ok1 fb1, of s]
  obtain w2 where w2: "display_chars self1 s = Inr (self1\<lparr>stdscr := w2\<rparr>)" "keeps (stdscr self1) w2"
    by blast
  define w3 where "w3 = fst (and_then (move (int (length z)) 0 w2) clrtobot)"
  have k3: "keeps w2 w3"
    unfolding w3_def by (rule keeps_and_then [OF keeps_move]) (rule keeps_clrtobot)
  have "update_page self = Inr (self\<lparr>color_pair := cp, stdscr := foot_note w3\<rparr>)"
    using neg str zero w2(1) move_origin [OF ok]
    by (cases neg) (simp_all add: update_page_def Let_def cp_def self1_def w0_def w3_def)
  moreover have "keeps (stdscr self) (foot_note w3)"
    using k0 w2(2) k3 keeps_foot_note [of w3]
    by (simp add: self1_def) (metis keeps_trans)
  ultimately show ?thesis
    unfolding cp_def by blast
qed

lemma font_has_glyph:
  assumes "cs \<in> set CHAR_SETS" and "c \<in> set reading_chars"
  shows "\<exists>g. map_of cs c = Some g"
  using reading_glyphs_exist assms by blast

lemma update_page_total:
  assumes ok: "window_ok (stdscr self)"
    and cs: "char_set self \<in> set CHAR_SETS"
    and num: "stored_number (number self)"
  shows "\<exists>w. update_page self
               = Inr (self\<lparr>color_pair := (if py_lt_zero (number self) = Inr True
                                          then pair_negative self else pair_positive self),
                          stdscr := w\<rparr>)
             \<and> keeps (stdscr self) w"
proof -
  obtain q z where q: "map_of (char_set self) CHR ''?'' = Some q"
    and z: "map_of (char_set self) CHR ''0'' = Some z"
    using font_has_glyph [OF cs, of "CHR ''?''"] font_has_glyph [OF cs, of "CHR ''0''"]
    by (auto simp: reading_chars_def)
  from stored_number_formats [OF num]
  obtain neg s where n: "py_lt_zero (number self) = Inr neg" "num_str self = Inr s"
    by blast
  from update_page_returns [OF ok q z n] n(1) show ?thesis
    by auto
qed

lemma styled_repainted:
  "styled self \<Longrightarrow> window_ok w \<Longrightarrow> styled (self\<lparr>color_pair := cp, stdscr := w\<rparr>)"
  by (simp add: styled_def)


section \<open>The display after \<^verbatim>\<open>__init__\<close>\<close>

lemma first_font: "CHAR_SETS ! 0 \<in> set CHAR_SETS"
  by (simp add: CHAR_SETS_def)

lemma styled_init: "window_ok scr \<Longrightarrow> styled (IndicatorDisplay_init scr)"
  by (simp add: styled_def IndicatorDisplay_init_def first_font BASE_CHARACTERS_def)

lemma stored_number_init: "stored_number (number (IndicatorDisplay_init scr))"
  by (simp add: IndicatorDisplay_init_def)

lemma window_ok_blank: "0 < l \<Longrightarrow> 0 < c \<Longrightarrow> window_ok (blank_window l c)"
  by (simp add: window_ok_def blank_window_def)

section \<open>Repainting a small terminal\<close>

text \<open>
  Claim C4. \<^verbatim>\<open>update_page\<close> returns on a window of any size, and so on one smaller
  than the glyphs it paints: the calls that can leave the window are inside
  \<^verbatim>\<open>try\<close> blocks, and the two calls of \<^verbatim>\<open>move\<close> outside them go to positions the
  window itself has reported. The display holds a number (the integer 0 it starts with
  or a float) and one of the four fonts; the window comes back with its size and with
  the cursor inside.
\<close>

theorem update_page_any_geometry:
  assumes "window_ok (stdscr self)"
    and "char_set self \<in> set CHAR_SETS"
    and "stored_number (number self)"
  shows "\<exists>self'. update_page self = Inr self'
           \<and> nlines (stdscr self') = nlines (stdscr self)
           \<and> ncols (stdscr self') = ncols (stdscr self)
           \<and> window_ok (stdscr self')"
  using update_page_total [OF assms] assms(1)
  by (auto simp: keeps_def)

theorem update_page_any_geometry_witness:
  "window_ok (stdscr (IndicatorDisplay_init terminal_3x5))
   \<and> char_set (IndicatorDisplay_init terminal_3x5) \<in> set CHAR_SETS
   \<and> stored_number (number (IndicatorDisplay_init terminal_3x5))
   \<and> (\<exists>self'. update_page (IndicatorDisplay_init terminal_3x5) = Inr self'
         \<and> nlines (stdscr self') = 3 \<and> ncols (stdscr self') = 5
         \<and> window_ok (stdscr self'))"
proof -
  have a: "window_ok (stdscr (IndicatorDisplay_init terminal_3x5))"
    by (simp add: IndicatorDisplay_init_def terminal_3x5_def window_ok_blank)
  have b: "char_set (IndicatorDisplay_init terminal_3x5) \<in> set CHAR_SETS"
    by (simp add: IndicatorDisplay_init_def first_font)
  have c: "stored_number (number (IndicatorDisplay_init terminal_3x5))"
    by (rule stored_number_init)
  have d: "nlines (stdscr (IndicatorDisplay_init terminal_3x5)) = 3"
      "ncols (stdscr (IndicatorDisplay_init terminal_3x5)) = 5"
    by (simp_all add: IndicatorDisplay_init_def terminal_3x5_def blank_window_def)
  from update_page_any_geometry [OF a b c] a b c d show ?thesis
    by simp
qed

section \<open>The colour follows the sign\<close>

lemma pairs_of_style:
  "negative_pair COLOR_PAIR_RED_ON_RED" "negative_pair COLOR_PAIR_RED_ON_BLK"
  "positive_pair COLOR_PAIR_GRN_ON_GRN" "positive_pair COLOR_PAIR_GRN_ON_BLK"
  "\<not> positive_pair COLOR_PAIR_RED_ON_RED" "\<not> positive_pair COLOR_PAIR_RED_ON_BLK"
  "\<not> negative_pair COLOR_PAIR_GRN_ON_GRN" "\<not> negative_pair COLOR_PAIR_GRN_ON_BLK"
  by (simp_all add: negative_pair_def positive_pair_def init_pairs_def
      COLOR_PAIR_GRN_ON_GRN_def COLOR_PAIR_RED_ON_RED_def COLOR_PAIR_GRN_ON_BLK_def
      COLOR_PAIR_RED_ON_BLK_def COLOR_POSITIVE_def COLOR_NEGATIVE_def)

text \<open>
  Claim C7. Whatever the font and the fill character, with the colour pairs that go
  with the fill character (\<open>styled\<close>): after \<^verbatim>\<open>update_page\<close> the current colour pair
  is the display's negative pair, a pair with the negative colour in front, when the
  number is below zero, and its positive pair, with the positive colour in front, when
  the number is zero or more.
\<close>

theorem sign_selects_color_pair:
  assumes "styled self" and "stored_number (number self)"
  shows "\<exists>self' neg. py_lt_zero (number self) = Inr neg
           \<and> update_page self = Inr self'
           \<and> color_pair self' = (if neg then pair_negative self else pair_positive self)
           \<and> negative_pair (color_pair self') = neg
           \<and> positive_pair (color_pair self') = (\<not> neg)"
proof -
  from stored_number_formats [OF assms(2)]
  obtain neg where neg: "py_lt_zero (number self) = Inr neg"
    by blast
  from assms(1) have "window_ok (stdscr self)" "char_set self \<in> set CHAR_SETS"
    by (simp_all add: styled_def)
  from update_page_total [OF this assms(2)]
  obtain w where w: "update_page self
      = Inr (self\<lparr>color_pair := (if neg then pair_negative self else pair_positive self),
                 stdscr := w\<rparr>)"
    using neg by auto
  from assms(1) have "negative_pair (if neg then pair_negative self else pair_positive self) = neg"
      "positive_pair (if neg then pair_negative self else pair_positive self) = (\<not> neg)"
    by (auto simp: styled_def pairs_of_style)
  with neg w show ?thesis
    by simp
qed

theorem sign_selects_color_pair_witness:
  "styled ((IndicatorDisplay_init terminal_24x80)\<lparr>number := PyFloat (Finite True 1 (- 1))\<rparr>)
   \<and> stored_number (number ((IndicatorDisplay_init terminal_24x80)\<lparr>number := PyFloat (Finite True 1 (- 1))\<rparr>))
   \<and> (\<exists>self'. update_page ((IndicatorDisplay_init terminal_24x80)\<lparr>number := PyFloat (Finite True 1 (- 1))\<rparr>)
                 = Inr self'
         \<and> color_pair self' = COLOR_PAIR_RED_ON_BLK
         \<and> negative_pair (color_pair self'))"
proof -
  let ?d = "(IndicatorDisplay_init terminal_24x80)\<lparr>number := PyFloat (Finite True 1 (- 1))\<rparr>"
  have "window_ok terminal_24x80"
    by (simp add: terminal_24x80_def window_ok_blank)
  then have "styled (IndicatorDisplay_init terminal_24x80)"
    by (rule styled_init)
  then have a: "styled ?d"
    by (simp add: styled_def)
  have b: "stored_number (number ?d)"
    by simp
  have c: "py_lt_zero (number ?d) = Inr True" "pair_negative ?d = COLOR_PAIR_RED_ON_BLK"
    by (simp_all add: IndicatorDisplay_init_def)
  from sign_selects_color_pair [OF a b] a b c show ?thesis
    by auto
qed

section \<open>A line that does not match\<close>

text \<open>
  Claim C1. A line the pattern does not match makes \<^verbatim>\<open>display_number\<close> store the
  string \<^verbatim>\<open>'9.999'\<close>, not a number, and \<^verbatim>\<open>update_page\<close> then compares it with 0:
  the call raises \<^verbatim>\<open>TypeError\<close> and nothing is painted.
\<close>

theorem display_number_mismatch_raises:
  "INDICATOR_RE_match s = None \<Longrightarrow> display_number self s = Inl TypeError"
  by (simp add: display_number_def update_page_def)

theorem display_number_mismatch_raises_witness:
  "INDICATOR_RE_match (''no reading'' @ [CHR 0x0A]) = None
   \<and> display_number (IndicatorDisplay_init terminal_24x80) (''no reading'' @ [CHR 0x0A])
       = Inl TypeError"
proof -
  have m: "INDICATOR_RE_match (''no reading'' @ [CHR 0x0A]) = None"
    by code_simp
  from display_number_mismatch_raises [OF m] m show ?thesis
    by simp
qed


section \<open>A line that matches\<close>

lemma takeWhile_run:
  assumes "\<forall>c \<in> set xs. P c" and "ys = [] \<or> \<not> P (hd ys)"
  shows "takeWhile P (xs @ ys) = xs" and "dropWhile P (xs @ ys) = ys"
  using assms by (cases ys; simp)+

lemma class_facts:
  "\<not> is_digit CHR ''.''" "\<not> is_digit CHR ''-''" "is_space c \<Longrightarrow> \<not> is_digit c"
  by (auto simp: is_digit_def is_space_def Let_def)

lemma hd_digits:
  assumes "ip \<noteq> []" and "list_all is_digit ip"
  shows "is_digit (hd (ip @ r))" and "hd (ip @ r) \<noteq> CHR ''-''" and "hd (ip @ r) \<noteq> CHR ''.''"
  using assms class_facts(1,2) by (cases ip; auto)+

text \<open>
  The pattern in words: an optional minus sign, digits, a point, digits, white space
  and a token of characters that are not white space. The token is the whole run:
  the line ends after it or goes on with white space, as it does with the newline that
  ends every line the loop passes on.
\<close>

lemma INDICATOR_RE_match_shape:
  assumes sg: "sg = [] \<or> sg = ''-''"
    and ip: "ip \<noteq> []" "list_all is_digit ip"
    and fp: "fp \<noteq> []" "list_all is_digit fp"
    and ws: "ws \<noteq> []" "list_all is_space ws"
    and tok: "tok \<noteq> []" "list_all (\<lambda>c. \<not> is_space c) tok"
    and rest: "rest = [] \<or> is_space (hd rest)"
  shows "INDICATOR_RE_match (sg @ ip @ ''.'' @ fp @ ws @ tok @ rest) = Some (sg @ ip @ ''.'' @ fp, tok)"
proof -
  define r0 where "r0 = ip @ ''.'' @ fp @ ws @ tok @ rest"
  define s where "s = sg @ r0"
  have r0_hd: "r0 \<noteq> []" "hd r0 \<noteq> CHR ''-''"
    using hd_digits(2) [OF ip] ip(1) by (simp_all add: r0_def)
  have sign: "(if s \<noteq> [] \<and> hd s = CHR ''-'' then ''-'' else []) = sg"
    using sg r0_hd by (auto simp: s_def)
  have drop0: "drop (length sg) s = r0"
    by (simp add: s_def)
  have ip_all: "\<forall>c \<in> set ip. is_digit c" and fp_all: "\<forall>c \<in> set fp. is_digit c"
    and ws_all: "\<forall>c \<in> set ws. is_space c" and tok_all: "\<forall>c \<in> set tok. \<not> is_space c"
    using ip(2) fp(2) ws(2) tok(2) by (simp_all add: list_all_iff)
  have point_hd: "''.'' @ fp @ ws @ tok @ rest = [] \<or> \<not> is_digit (hd (''.'' @ fp @ ws @ tok @ rest))"
    using class_facts(1) by simp
  have d1: "takeWhile is_digit r0 = ip" "dropWhile is_digit r0 = ''.'' @ fp @ ws @ tok @ rest"
    unfolding r0_def by (rule takeWhile_run [OF ip_all point_hd])+
  have ws_hd: "ws @ tok @ rest = [] \<or> \<not> is_digit (hd (ws @ tok @ rest))"
    using ws class_facts(3) by (cases ws) auto
  have d2: "takeWhile is_digit (fp @ ws @ tok @ rest) = fp"
      "dropWhile is_digit (fp @ ws @ tok @ rest) = ws @ tok @ rest"
    by (rule takeWhile_run [OF fp_all ws_hd])+
  have tok_hd: "tok @ rest = [] \<or> \<not> is_space (hd (tok @ rest))"
    using tok by (cases tok) auto
  have d3: "takeWhile is_space (ws @ tok @ rest) = ws"
      "dropWhile is_space (ws @ tok @ rest) = tok @ rest"
    by (rule takeWhile_run [OF ws_all tok_hd])+
  have rest_hd: "rest = [] \<or> \<not> \<not> is_space (hd rest)"
    using rest by simp
  have d4: "takeWhile (\<lambda>c. \<not> is_space c) (tok @ rest) = tok"
    by (rule takeWhile_run [OF tok_all rest_hd])
  have "INDICATOR_RE_match s = Some (sg @ ip @ ''.'' @ fp, tok)"
    unfolding INDICATOR_RE_match_def sign drop0 Let_def d1
    using ip(1) fp(1) ws(1) tok(1) by (simp add: d2 d3 d4)
  then show ?thesis
    by (simp add: s_def r0_def)
qed

lemma float_of_literal_shape:
  assumes sg: "sg = [] \<or> sg = ''-''" and ip: "ip \<noteq> []" "list_all is_digit ip"
  shows "float_of_literal (sg @ ip @ ''.'' @ fp)
         = float_of_fraction (sg = ''-'') (nat_of_digits (ip @ fp)) (10 ^ length fp)"
proof -
  define body where "body = ip @ ''.'' @ fp"
  have no_point: "\<forall>c \<in> set ip. c \<noteq> CHR ''.''"
    using ip(2) class_facts(1) by (auto simp: list_all_iff)
  have split: "takeWhile (\<lambda>c. c \<noteq> CHR ''.'') body = ip"
      "dropWhile (\<lambda>c. c \<noteq> CHR ''.'') body = ''.'' @ fp"
    unfolding body_def using no_point by (simp_all add: takeWhile_run)
  have neg: "(sg @ body \<noteq> [] \<and> hd (sg @ body) = CHR ''-'') = (sg = ''-'')"
    using sg ip(1) hd_digits(2) [OF ip] by (auto simp: body_def)
  have tl: "(if sg = ''-'' then tl (sg @ body) else sg @ body) = body"
    using sg by auto
  have "float_of_literal (sg @ body)
        = float_of_fraction (sg = ''-'') (nat_of_digits (ip @ fp)) (10 ^ length fp)"
    unfolding float_of_literal_def neg Let_def tl split by simp
  then show ?thesis
    by (simp add: body_def)
qed

text \<open>
  Claim C2. A line of that form matches, and \<^verbatim>\<open>display_number\<close> stores the float
  nearest to the decimal number written by the sign and the digits, and the unit
  \<^verbatim>\<open>'mm'\<close> when the token is \<^verbatim>\<open>mm\<close> and \<^verbatim>\<open>'in'\<close> for any other token; then it
  paints the page and returns.
\<close>

theorem display_number_matching_line:
  assumes sg: "sg = [] \<or> sg = ''-''"
    and ip: "ip \<noteq> []" "list_all is_digit ip"
    and fp: "fp \<noteq> []" "list_all is_digit fp"
    and ws: "ws \<noteq> []" "list_all is_space ws"
    and tok: "tok \<noteq> []" "list_all (\<lambda>c. \<not> is_space c) tok"
    and rest: "rest = [] \<or> is_space (hd rest)"
    and scr: "window_ok (stdscr self)"
    and font: "char_set self \<in> set CHAR_SETS"
  shows "INDICATOR_RE_match (sg @ ip @ ''.'' @ fp @ ws @ tok @ rest) \<noteq> None
         \<and> (\<exists>self'. display_number self (sg @ ip @ ''.'' @ fp @ ws @ tok @ rest) = Inr self'
               \<and> number self'
                   = PyFloat (float_of_fraction (sg = ''-'') (nat_of_digits (ip @ fp))
                                (10 ^ length fp))
               \<and> unit self' = (if tok = ''mm'' then ''mm'' else ''in''))"
proof -
  define s where "s = sg @ ip @ ''.'' @ fp @ ws @ tok @ rest"
  define num where "num = sg @ ip @ ''.'' @ fp"
  define x where "x = float_of_fraction (sg = ''-'') (nat_of_digits (ip @ fp)) (10 ^ length fp)"
  define u where "u = (if tok = ''mm'' then ''mm'' else ''in'')"
  define self1 where "self1 = self\<lparr>number := PyFloat x, unit := u\<rparr>"
  have m: "INDICATOR_RE_match s = Some (num, tok)"
    unfolding s_def num_def by (rule INDICATOR_RE_match_shape [OF sg ip fp ws tok rest])
  have lit: "float_of_literal num = x"
    unfolding num_def x_def by (rule float_of_literal_shape [OF sg ip])
  have call: "display_number self s = update_page self1"
    by (simp add: display_number_def m lit self1_def u_def)
  have "window_ok (stdscr self1)" "char_set self1 \<in> set CHAR_SETS" "stored_number (number self1)"
    using scr font by (simp_all add: self1_def)
  from update_page_total [OF this]
  obtain self' where "update_page self1 = Inr self'" "number self' = PyFloat x" "unit self' = u"
    by (auto simp: self1_def)
  with m call have "INDICATOR_RE_match s \<noteq> None
      \<and> (\<exists>self'. display_number self s = Inr self' \<and> number self' = PyFloat x \<and> unit self' = u)"
    by auto
  then show ?thesis
    unfolding s_def x_def u_def .
qed

theorem display_number_matching_line_witness:
  "list_all is_digit ''12'' \<and> list_all is_digit ''34'' \<and> list_all is_space '' ''
   \<and> list_all (\<lambda>c. \<not> is_space c) ''mm'' \<and> is_space (hd [CHR 0x0A])
   \<and> window_ok (stdscr (IndicatorDisplay_init terminal_24x80))
   \<and> char_set (IndicatorDisplay_init terminal_24x80) \<in> set CHAR_SETS
   \<and> INDICATOR_RE_match (''12.34 mm'' @ [CHR 0x0A]) \<noteq> None
   \<and> (\<exists>self'. display_number (IndicatorDisplay_init terminal_24x80) (''12.34 mm'' @ [CHR 0x0A])
                 = Inr self'
         \<and> number self' = PyFloat (Finite False 6946802425218990 (- 49))
         \<and> unit self' = ''mm'')"
proof -
  have h: "list_all is_digit ''12''" "list_all is_digit ''34''" "list_all is_space '' ''"
      "list_all (\<lambda>c. \<not> is_space c) ''mm''" "is_space (hd [CHR 0x0A])"
    by (simp_all add: is_digit_def is_space_def)
  have scr: "window_ok (stdscr (IndicatorDisplay_init terminal_24x80))"
    by (simp add: IndicatorDisplay_init_def terminal_24x80_def window_ok_blank)
  have font: "char_set (IndicatorDisplay_init terminal_24x80) \<in> set CHAR_SETS"
    by (simp add: IndicatorDisplay_init_def first_font)
  have digits: "nat_of_digits (''12'' @ ''34'') = 1234"
    by (simp add: nat_of_digits_def digit_val_def)
  have "bitlen 1234 = 11" "bitlen 100 = 7"
    by (simp_all add: bitlen.simps)
  then have nearest: "float_of_fraction False 1234 100 = Finite False 6946802425218990 (- 49)"
    by (simp add: float_of_fraction_def Let_def round_half_even_def)
  have x: "float_of_fraction ([] = ''-'') (nat_of_digits (''12'' @ ''34'')) (10 ^ length ''34'')
           = Finite False 6946802425218990 (- 49)"
    unfolding digits using nearest by simp
  have s: "[] @ ''12'' @ ''.'' @ ''34'' @ '' '' @ ''mm'' @ [CHR 0x0A] = ''12.34 mm'' @ [CHR 0x0A]"
    by simp
  have u: "(if ''mm'' = ''mm'' then ''mm'' else ''in'') = ''mm''"
    by simp
  have "INDICATOR_RE_match (''12.34 mm'' @ [CHR 0x0A]) \<noteq> None
        \<and> (\<exists>self'. display_number (IndicatorDisplay_init terminal_24x80) (''12.34 mm'' @ [CHR 0x0A])
                 = Inr self'
         \<and> number self' = PyFloat (Finite False 6946802425218990 (- 49))
         \<and> unit self' = ''mm'')"
    using display_number_matching_line [of "[]" "''12''" "''34''" "'' ''" "''mm''" "[CHR 0x0A]"
        "IndicatorDisplay_init terminal_24x80", OF _ _ h(1) _ h(2) _ h(3) _ h(4) _ scr font]
    unfolding x s u using h(5) by blast
  with h scr font show ?thesis
    by blast
qed


section \<open>The text of the reading\<close>

lemma round_half_even_nearest:
  assumes "0 < d"
  shows "2 * (round_half_even n d * d) \<le> 2 * n + d \<and> 2 * n \<le> 2 * (round_half_even n d * d) + d"
proof -
  define q r where "q = n div d" and "r = n mod d"
  have n: "n = q * d + r" and r: "r < d"
    using assms by (simp_all add: q_def r_def)
  show ?thesis
    unfolding round_half_even_def Let_def q_def [symmetric] r_def [symmetric]
    using r by (auto simp: n algebra_simps)
qed

lemma of_char_digit_char: "k < 10 \<Longrightarrow> (of_char (digit_char k) :: nat) = 48 + k"
  by (simp add: digit_char_def)

lemma is_digit_digit_char: "k < 10 \<Longrightarrow> is_digit (digit_char k)"
  by (simp add: is_digit_def of_char_digit_char)

lemma digit_val_digit_char: "k < 10 \<Longrightarrow> digit_val (digit_char k) = k"
  by (simp add: digit_val_def of_char_digit_char)

lemma str_nat_not_empty: "str_nat n \<noteq> []"
  by (subst str_nat.simps) simp

lemma str_nat_digits: "list_all is_digit (str_nat n)"
proof (induction n rule: str_nat.induct)
  case (1 n)
  show ?case
  proof (cases "n < 10")
    case True
    then show ?thesis
      by (subst str_nat.simps) (simp add: is_digit_digit_char)
  next
    case False
    with "1.IH" show ?thesis
      by (subst str_nat.simps) (simp add: is_digit_digit_char)
  qed
qed

lemma nat_of_digits_snoc: "nat_of_digits (s @ [c]) = 10 * nat_of_digits s + digit_val c"
  by (simp add: nat_of_digits_def)

lemma nat_of_digits_append:
  "nat_of_digits (s @ t) = nat_of_digits s * 10 ^ length t + nat_of_digits t"
proof (induction t rule: rev_induct)
  case Nil
  show ?case by (simp add: nat_of_digits_def)
next
  case (snoc c t)
  have "nat_of_digits (s @ t @ [c]) = 10 * nat_of_digits (s @ t) + digit_val c"
    using nat_of_digits_snoc [of "s @ t" c] by simp
  with snoc show ?case
    by (simp add: nat_of_digits_snoc algebra_simps)
qed

lemma nat_of_digits_str_nat: "nat_of_digits (str_nat n) = n"
proof (induction n rule: str_nat.induct)
  case (1 n)
  show ?case
  proof (cases "n < 10")
    case True
    then show ?thesis
      by (subst str_nat.simps) (simp add: nat_of_digits_def digit_val_digit_char)
  next
    case False
    with "1.IH" show ?thesis
      by (subst str_nat.simps) (simp add: nat_of_digits_snoc digit_val_digit_char)
  qed
qed

lemma length_str_nat: "n < 10 ^ d \<Longrightarrow> 0 < d \<Longrightarrow> length (str_nat n) \<le> d"
proof (induction n arbitrary: d rule: str_nat.induct)
  case (1 n)
  show ?case
  proof (cases "n < 10")
    case True
    with "1.prems" show ?thesis
      by (subst str_nat.simps) simp
  next
    case False
    obtain d' where d: "d = Suc d'"
      using "1.prems"(2) by (cases d) auto
    with False "1.prems"(1) have "0 < d'"
      by (cases d') auto
    moreover from d "1.prems"(1) have "n div 10 < 10 ^ d'"
      by (simp add: less_mult_imp_div_less mult.commute)
    ultimately have "length (str_nat (n div 10)) \<le> d'"
      using "1.IH" False by blast
    with False d show ?thesis
      by (subst str_nat.simps) simp
  qed
qed

lemma nat_of_digits_zeros: "nat_of_digits (replicate k CHR ''0'' @ s) = nat_of_digits s"
proof (induction k)
  case 0
  show ?case by simp
next
  case (Suc k)
  have "nat_of_digits (CHR ''0'' # replicate k CHR ''0'' @ s)
        = nat_of_digits [CHR ''0''] * 10 ^ length (replicate k CHR ''0'' @ s)
          + nat_of_digits (replicate k CHR ''0'' @ s)"
    using nat_of_digits_append [of "[CHR ''0'']" "replicate k CHR ''0'' @ s"] by simp
  with Suc show ?case
    by (simp add: nat_of_digits_def digit_val_def)
qed

lemma pad_zeros_facts:
  assumes "length s \<le> d" and "list_all is_digit s"
  shows "length (pad_zeros d s) = d" and "list_all is_digit (pad_zeros d s)"
    and "nat_of_digits (pad_zeros d s) = nat_of_digits s"
  using assms
  by (auto simp: pad_zeros_def nat_of_digits_zeros is_digit_def list_all_iff)

text \<open>
  The format of a finite float that is not negative, with at least one decimal: digits,
  a point and exactly \<open>d\<close> digits, which read together as the value times \<open>10 ^ d\<close>
  rounded to an integer.
\<close>

lemma format_f_shape:
  assumes "0 < d"
  shows "\<exists>ip fp. format_f d (Finite False m e) = ip @ ''.'' @ fp
           \<and> ip \<noteq> [] \<and> list_all is_digit ip \<and> list_all is_digit fp \<and> length fp = d
           \<and> nat_of_digits (ip @ fp) = scaled d m e"
proof -
  define q where "q = scaled d m e"
  define ip where "ip = str_nat (q div 10 ^ d)"
  define fp where "fp = pad_zeros d (str_nat (q mod 10 ^ d))"
  have len: "length (str_nat (q mod 10 ^ d)) \<le> d"
    using assms by (simp add: length_str_nat)
  note pad = pad_zeros_facts [OF len str_nat_digits]
  have "format_f d (Finite False m e) = ip @ ''.'' @ fp"
    using assms by (simp add: q_def ip_def fp_def Let_def)
  moreover have "ip \<noteq> []" "list_all is_digit ip"
    by (simp_all add: ip_def str_nat_not_empty str_nat_digits)
  moreover have "list_all is_digit fp" "length fp = d"
    using pad by (simp_all add: fp_def)
  moreover have "nat_of_digits (ip @ fp) = q"
    using pad by (simp add: nat_of_digits_append ip_def fp_def nat_of_digits_str_nat div_mult_mod_eq)
  ultimately show ?thesis
    unfolding q_def by blast
qed

lemma bitlen_examples: "bitlen 123 = 7" "bitlen 10 = 4" "bitlen 5 = 3"
  by (simp_all add: bitlen.simps)

lemma float_of_literal_examples:
  "float_of_literal ''12.3'' = Finite False 6924284427082138 (- 49)"
  "float_of_literal ''-0.5'' = Finite True 4503599627370496 (- 53)"
  by (simp_all add: float_of_literal_def nat_of_digits_def digit_val_def float_of_fraction_def
      bitlen_examples Let_def round_half_even_def)

lemma scaled_examples:
  "scaled 2 6924284427082138 (- 49) = 1230"
  "scaled 4 4503599627370496 (- 53) = 5000"
  by (simp_all add: scaled_def round_half_even_def Let_def)

lemma digit_chars:
  "digit_char 0 = CHR ''0''" "digit_char 1 = CHR ''1''" "digit_char 2 = CHR ''2''"
  "digit_char 3 = CHR ''3''" "digit_char 4 = CHR ''4''" "digit_char 5 = CHR ''5''"
  "digit_char 6 = CHR ''6''" "digit_char 7 = CHR ''7''" "digit_char 8 = CHR ''8''"
  "digit_char 9 = CHR ''9''" "digit_char (Suc 0) = CHR ''1''"
  by code_simp+

lemma str_nat_examples:
  "str_nat 12 = ''12''" "str_nat 30 = ''30''" "str_nat 0 = ''0''" "str_nat 5000 = ''5000''"
  by (simp_all add: str_nat.simps digit_chars)

lemma format_f_examples:
  "format_f 2 (Finite False 6924284427082138 (- 49)) = ''12.30''"
  "format_f 4 (Finite False 4503599627370496 (- 53)) = ''0.5000''"
  unfolding format_f.simps Let_def scaled_examples
  by (simp_all add: str_nat_examples pad_zeros_def)

lemma format_examples:
  "format_f 2 (float_abs (float_of_literal ''12.3'')) = ''12.30''"
  "float_lt_zero (float_of_literal ''12.3'') = False"
  "format_f 4 (float_abs (float_of_literal ''-0.5'')) = ''0.5000''"
  "float_lt_zero (float_of_literal ''-0.5'') = True"
  unfolding float_of_literal_examples float_abs.simps float_lt_zero.simps format_f_examples
  by simp_all

text \<open>
  Claim C6. For a finite float the text is the sign (a minus below zero, a blank
  otherwise), the magnitude with two decimals when the unit is \<^verbatim>\<open>'mm'\<close> and four
  otherwise (so for \<^verbatim>\<open>'in'\<close>), a blank and the unit; the digits of the magnitude read
  as the magnitude times 100 or 10000, rounded to an integer. The float 12.3 in
  millimetres gives \<^verbatim>\<open>' 12.30 mm'\<close>, the float -0.5 in inches \<^verbatim>\<open>'-0.5000 in'\<close>.
\<close>

theorem num_str_fixed_precision:
  assumes "number self = PyFloat (Finite s m e)"
  shows "(\<exists>ip fp. num_str self
                    = Inr ((if s \<and> m \<noteq> 0 then CHR ''-'' else CHR '' '') # ip @ ''.'' @ fp
                           @ '' '' @ unit self)
            \<and> ip \<noteq> [] \<and> list_all is_digit ip \<and> list_all is_digit fp
            \<and> length fp = (if unit self = ''mm'' then 2 else 4)
            \<and> nat_of_digits (ip @ fp) = scaled (length fp) m e)
         \<and> num_str (self\<lparr>number := PyFloat (float_of_literal ''12.3''), unit := ''mm''\<rparr>)
             = Inr '' 12.30 mm''
         \<and> num_str (self\<lparr>number := PyFloat (float_of_literal ''-0.5''), unit := ''in''\<rparr>)
             = Inr ''-0.5000 in''"
proof -
  define d :: nat where "d = (if unit self = ''mm'' then 2 else 4)"
  have "0 < d"
    by (simp add: d_def)
  from format_f_shape [OF this, of m e]
  obtain ip fp where f: "format_f d (Finite False m e) = ip @ ''.'' @ fp"
      "ip \<noteq> []" "list_all is_digit ip" "list_all is_digit fp" "length fp = d"
      "nat_of_digits (ip @ fp) = scaled d m e"
    by blast
  have "num_str self
        = Inr ((if s \<and> m \<noteq> 0 then CHR ''-'' else CHR '' '') # ip @ ''.'' @ fp @ '' '' @ unit self)"
    using f(1) by (simp add: num_str_float [OF assms] d_def [symmetric])
  moreover have "nat_of_digits (ip @ fp) = scaled (length fp) m e"
      "length fp = (if unit self = ''mm'' then 2 else 4)"
    using f(5,6) by (simp_all add: d_def)
  ultimately have general: "\<exists>ip fp. num_str self
                    = Inr ((if s \<and> m \<noteq> 0 then CHR ''-'' else CHR '' '') # ip @ ''.'' @ fp
                           @ '' '' @ unit self)
            \<and> ip \<noteq> [] \<and> list_all is_digit ip \<and> list_all is_digit fp
            \<and> length fp = (if unit self = ''mm'' then 2 else 4)
            \<and> nat_of_digits (ip @ fp) = scaled (length fp) m e"
    using f(2-4) by blast
  have "num_str (self\<lparr>number := PyFloat (float_of_literal ''12.3''), unit := ''mm''\<rparr>)
          = Inr '' 12.30 mm''"
      "num_str (self\<lparr>number := PyFloat (float_of_literal ''-0.5''), unit := ''in''\<rparr>)
          = Inr ''-0.5000 in''"
    by (simp_all add: num_str_float [where x = "float_of_literal ''12.3''"]
        num_str_float [where x = "float_of_literal ''-0.5''"] format_examples)
  with general show ?thesis
    by blast
qed

theorem num_str_fixed_precision_witness:
  "number ((IndicatorDisplay_init terminal_24x80)
             \<lparr>number := PyFloat (Finite True 4503599627370496 (- 53)), unit := ''in''\<rparr>)
     = PyFloat (Finite True 4503599627370496 (- 53))
   \<and> (\<exists>ip fp. num_str ((IndicatorDisplay_init terminal_24x80)
                         \<lparr>number := PyFloat (Finite True 4503599627370496 (- 53)), unit := ''in''\<rparr>)
                 = Inr (CHR ''-'' # ip @ ''.'' @ fp @ '' in'')
         \<and> length fp = 4 \<and> nat_of_digits (ip @ fp) = 5000)"
proof -
  let ?d = "(IndicatorDisplay_init terminal_24x80)
              \<lparr>number := PyFloat (Finite True 4503599627370496 (- 53)), unit := ''in''\<rparr>"
  have n: "number ?d = PyFloat (Finite True 4503599627370496 (- 53))"
    by simp
  have u: "unit ?d = ''in''"
    by simp
  from num_str_fixed_precision [OF n]
  obtain ip fp where r: "num_str ?d
        = Inr ((if True \<and> (4503599627370496::nat) \<noteq> 0 then CHR ''-'' else CHR '' '') # ip @ ''.'' @ fp
               @ '' '' @ unit ?d)"
      "length fp = (if unit ?d = ''mm'' then 2 else 4)"
      "nat_of_digits (ip @ fp) = scaled (length fp) 4503599627370496 (- 53)"
    by blast
  from r(2) have len: "length fp = 4"
    unfolding u by simp
  from r(3) have val: "nat_of_digits (ip @ fp) = 5000"
    unfolding len by (simp add: scaled_examples)
  from r(1) have "num_str ?d = Inr (CHR ''-'' # ip @ ''.'' @ fp @ '' in'')"
    unfolding u by simp
  with len val have "\<exists>ip fp. num_str ?d = Inr (CHR ''-'' # ip @ ''.'' @ fp @ '' in'')
      \<and> length fp = 4 \<and> nat_of_digits (ip @ fp) = 5000"
    by blast
  with n show ?thesis
    by blast
qed


section \<open>Cycling the font and the fill character\<close>

lemma index_from_nth:
  "distinct xs \<Longrightarrow> i < length xs \<Longrightarrow> index_from k xs (xs ! i) = Inr (k + i)"
proof (induction xs arbitrary: k i)
  case Nil
  then show ?case by simp
next
  case (Cons y ys)
  show ?case
  proof (cases i)
    case 0
    then show ?thesis by simp
  next
    case (Suc j)
    with Cons.prems have j: "j < length ys" "distinct ys" "ys ! j \<noteq> y"
      by auto
    with Cons.IH [of j "k + 1"] Suc show ?thesis
      by simp
  qed
qed

lemma index_nth: "distinct xs \<Longrightarrow> i < length xs \<Longrightarrow> index xs (xs ! i) = Inr i"
  by (simp add: index_def index_from_nth)

lemma distinct_CHAR_SETS: "distinct CHAR_SETS"
  by code_simp

lemma distinct_BASE_CHARACTERS: "distinct BASE_CHARACTERS"
  by (simp add: BASE_CHARACTERS_def)

lemma catalogue_sizes: "length CHAR_SETS = 4" "length BASE_CHARACTERS = 8"
  by (simp_all add: CHAR_SETS_def BASE_CHARACTERS_def)

text \<open>Painting the page changes the window and the current colour pair and nothing
  else.\<close>

lemma update_page_fields:
  assumes "window_ok (stdscr self)" and "char_set self \<in> set CHAR_SETS"
    and "stored_number (number self)"
  shows "\<exists>self'. update_page self = Inr self'
           \<and> window_ok (stdscr self')
           \<and> char_set self' = char_set self \<and> base_char self' = base_char self
           \<and> pair_positive self' = pair_positive self \<and> pair_negative self' = pair_negative self
           \<and> number self' = number self \<and> unit self' = unit self"
  using update_page_total [OF assms] assms(1) by (auto simp: keeps_def)

lemma update_page_keeps_styled:
  assumes "styled self" and "stored_number (number self)"
  shows "\<exists>self'. update_page self = Inr self' \<and> styled self'
           \<and> char_set self' = char_set self \<and> base_char self' = base_char self
           \<and> pair_positive self' = pair_positive self \<and> pair_negative self' = pair_negative self
           \<and> number self' = number self \<and> unit self' = unit self"
proof -
  from assms(1) have "window_ok (stdscr self)" "char_set self \<in> set CHAR_SETS"
    by (simp_all add: styled_def)
  from update_page_fields [OF this assms(2)]
  obtain self' where s: "update_page self = Inr self'" "window_ok (stdscr self')"
      "char_set self' = char_set self" "base_char self' = base_char self"
      "pair_positive self' = pair_positive self" "pair_negative self' = pair_negative self"
      "number self' = number self" "unit self' = unit self"
    by blast
  from assms(1) s(2-6) have "styled self'"
    unfolding styled_def by simp
  with s show ?thesis
    by blast
qed

lemma handle_f1_step:
  assumes st: "styled self" and num: "stored_number (number self)"
    and i: "i < length CHAR_SETS" "char_set self = CHAR_SETS ! i"
  shows "\<exists>self'. handle_f1 self = Inr self' \<and> styled self' \<and> number self' = number self
           \<and> char_set self' = CHAR_SETS ! ((i + 1) mod length CHAR_SETS)"
proof -
  define j where "j = (i + 1) mod length CHAR_SETS"
  define self1 where "self1 = self\<lparr>char_set := CHAR_SETS ! j\<rparr>"
  have j: "j < length CHAR_SETS"
    by (simp add: j_def catalogue_sizes)
  have idx: "index CHAR_SETS (char_set self) = Inr i"
    unfolding i(2) by (rule index_nth [OF distinct_CHAR_SETS i(1)])
  have call: "handle_f1 self = update_page self1"
    by (simp add: handle_f1_def idx self1_def j_def)
  have "styled self1" "stored_number (number self1)"
    using st num j by (simp_all add: styled_def self1_def)
  from update_page_keeps_styled [OF this]
  obtain self' where "update_page self1 = Inr self'" "styled self'"
      "char_set self' = char_set self1" "number self' = number self1"
    by blast
  then have "handle_f1 self = Inr self' \<and> styled self' \<and> number self' = number self
      \<and> char_set self' = CHAR_SETS ! j"
    unfolding call by (simp add: self1_def)
  then show ?thesis
    unfolding j_def by blast
qed

lemma handle_f2_step:
  assumes st: "styled self" and num: "stored_number (number self)"
    and i: "i < length BASE_CHARACTERS" "base_char self = BASE_CHARACTERS ! i"
  shows "\<exists>self'. handle_f2 self = Inr self' \<and> styled self' \<and> number self' = number self
           \<and> base_char self' = BASE_CHARACTERS ! ((i + 1) mod length BASE_CHARACTERS)"
proof -
  define j where "j = (i + 1) mod length BASE_CHARACTERS"
  define b where "b = BASE_CHARACTERS ! j"
  define self2 where "self2 =
    (if b = 0x20
     then self\<lparr>base_char := b, pair_positive := COLOR_PAIR_GRN_ON_GRN,
               pair_negative := COLOR_PAIR_RED_ON_RED\<rparr>
     else self\<lparr>base_char := b, pair_positive := COLOR_PAIR_GRN_ON_BLK,
               pair_negative := COLOR_PAIR_RED_ON_BLK\<rparr>)"
  have j: "j < length BASE_CHARACTERS"
    by (simp add: j_def catalogue_sizes)
  then have b: "b \<in> set BASE_CHARACTERS"
    by (simp add: b_def)
  have idx: "index BASE_CHARACTERS (base_char self) = Inr i"
    unfolding i(2) by (rule index_nth [OF distinct_BASE_CHARACTERS i(1)])
  have call: "handle_f2 self = update_page self2"
    by (simp add: handle_f2_def idx self2_def b_def j_def Let_def)
  have f: "base_char self2 = b" "number self2 = number self"
    by (simp_all add: self2_def)
  have "styled self2"
    using st b unfolding styled_def self2_def by (cases "b = 0x20") simp_all
  moreover have "stored_number (number self2)"
    using num by (simp add: f)
  ultimately obtain self' where "update_page self2 = Inr self'" "styled self'"
      "base_char self' = base_char self2" "number self' = number self2"
    using update_page_keeps_styled by blast
  then have "handle_f2 self = Inr self' \<and> styled self' \<and> number self' = number self
      \<and> base_char self' = BASE_CHARACTERS ! j"
    unfolding call by (simp add: f b_def)
  then show ?thesis
    unfolding j_def by blast
qed

lemma repeated_handle_f1:
  assumes "styled self" and "stored_number (number self)"
    and "i < length CHAR_SETS" and "char_set self = CHAR_SETS ! i"
  shows "\<exists>self'. repeated k handle_f1 self = Inr self' \<and> styled self'
           \<and> char_set self' = CHAR_SETS ! ((i + k) mod length CHAR_SETS)"
  using assms
proof (induction k arbitrary: self i)
  case 0
  then show ?case by simp
next
  case (Suc k)
  from handle_f1_step [OF Suc.prems]
  obtain self1 where s1: "handle_f1 self = Inr self1" "styled self1" "number self1 = number self"
      "char_set self1 = CHAR_SETS ! ((i + 1) mod length CHAR_SETS)"
    by blast
  have "(i + 1) mod length CHAR_SETS < length CHAR_SETS"
    by (simp add: catalogue_sizes)
  moreover have "stored_number (number self1)"
    using s1(3) Suc.prems(2) by simp
  ultimately obtain self' where r: "repeated k handle_f1 self1 = Inr self'" "styled self'"
      "char_set self' = CHAR_SETS ! (((i + 1) mod length CHAR_SETS + k) mod length CHAR_SETS)"
    using Suc.IH [OF s1(2) _ _ s1(4)] by blast
  have "((i + 1) mod length CHAR_SETS + k) mod length CHAR_SETS = (i + Suc k) mod length CHAR_SETS"
    by (simp add: mod_add_left_eq)
  with r have "repeated (Suc k) handle_f1 self = Inr self' \<and> styled self'
      \<and> char_set self' = CHAR_SETS ! ((i + Suc k) mod length CHAR_SETS)"
    using s1(1) by simp
  then show ?case
    by blast
qed

lemma repeated_handle_f2:
  assumes "styled self" and "stored_number (number self)"
    and "i < length BASE_CHARACTERS" and "base_char self = BASE_CHARACTERS ! i"
  shows "\<exists>self'. repeated k handle_f2 self = Inr self' \<and> styled self'
           \<and> base_char self' = BASE_CHARACTERS ! ((i + k) mod length BASE_CHARACTERS)"
  using assms
proof (induction k arbitrary: self i)
  case 0
  then show ?case by simp
next
  case (Suc k)
  from handle_f2_step [OF Suc.prems]
  obtain self1 where s1: "handle_f2 self = Inr self1" "styled self1" "number self1 = number self"
      "base_char self1 = BASE_CHARACTERS ! ((i + 1) mod length BASE_CHARACTERS)"
    by blast
  have "(i + 1) mod length BASE_CHARACTERS < length BASE_CHARACTERS"
    by (simp add: catalogue_sizes)
  moreover have "stored_number (number self1)"
    using s1(3) Suc.prems(2) by simp
  ultimately obtain self' where r: "repeated k handle_f2 self1 = Inr self'" "styled self'"
      "base_char self' = BASE_CHARACTERS ! (((i + 1) mod length BASE_CHARACTERS + k) mod length BASE_CHARACTERS)"
    using Suc.IH [OF s1(2) _ _ s1(4)] by blast
  have "((i + 1) mod length BASE_CHARACTERS + k) mod length BASE_CHARACTERS = (i + Suc k) mod length BASE_CHARACTERS"
    by (simp add: mod_add_left_eq)
  with r have "repeated (Suc k) handle_f2 self = Inr self' \<and> styled self'
      \<and> base_char self' = BASE_CHARACTERS ! ((i + Suc k) mod length BASE_CHARACTERS)"
    using s1(1) by simp
  then show ?case
    by blast
qed

text \<open>
  Claim C8. There are four fonts and eight fill characters. On a display in its usual
  state (\<open>styled\<close>, holding a number), four presses of F1 bring the font back, and
  eight presses of F2 bring back the fill character and with it the two colour pairs;
  after each press of F2 the pairs are the same-on-same ones exactly when the fill
  character is the blank, and the on-black ones otherwise.
\<close>

theorem cycling_round_trip:
  assumes "styled self" and "stored_number (number self)"
  shows "length CHAR_SETS = 4 \<and> length BASE_CHARACTERS = 8
         \<and> (\<exists>self'. repeated 4 handle_f1 self = Inr self' \<and> char_set self' = char_set self)
         \<and> (\<exists>self'. repeated 8 handle_f2 self = Inr self'
               \<and> base_char self' = base_char self
               \<and> pair_positive self' = pair_positive self
               \<and> pair_negative self' = pair_negative self)
         \<and> (\<exists>self'. handle_f2 self = Inr self'
               \<and> (pair_positive self', pair_negative self')
                   = (if base_char self' = 0x20
                      then (COLOR_PAIR_GRN_ON_GRN, COLOR_PAIR_RED_ON_RED)
                      else (COLOR_PAIR_GRN_ON_BLK, COLOR_PAIR_RED_ON_BLK)))"
proof -
  from assms(1) have "char_set self \<in> set CHAR_SETS" "base_char self \<in> set BASE_CHARACTERS"
    by (simp_all add: styled_def)
  then obtain i j where i: "i < length CHAR_SETS" "char_set self = CHAR_SETS ! i"
    and j: "j < length BASE_CHARACTERS" "base_char self = BASE_CHARACTERS ! j"
    unfolding in_set_conv_nth by metis
  have cyc: "(i + 4) mod length CHAR_SETS = i" "(j + 8) mod length BASE_CHARACTERS = j"
    using i(1) j(1) by (simp_all add: catalogue_sizes)
  from repeated_handle_f1 [OF assms i, of 4]
  have f1: "\<exists>self'. repeated 4 handle_f1 self = Inr self' \<and> char_set self' = char_set self"
    unfolding cyc i(2) by blast
  from repeated_handle_f2 [OF assms j, of 8]
  obtain self8 where s8: "repeated 8 handle_f2 self = Inr self8" "styled self8"
      "base_char self8 = base_char self"
    unfolding cyc j(2) by blast
  from s8(2,3) assms(1) have "pair_positive self8 = pair_positive self"
      "pair_negative self8 = pair_negative self"
    by (simp_all add: styled_def)
  with s8 have f2: "\<exists>self'. repeated 8 handle_f2 self = Inr self'
               \<and> base_char self' = base_char self
               \<and> pair_positive self' = pair_positive self
               \<and> pair_negative self' = pair_negative self"
    by blast
  from handle_f2_step [OF assms j]
  obtain self1 where "handle_f2 self = Inr self1" "styled self1"
    by blast
  moreover from this(2) have "(pair_positive self1, pair_negative self1)
                   = (if base_char self1 = 0x20
                      then (COLOR_PAIR_GRN_ON_GRN, COLOR_PAIR_RED_ON_RED)
                      else (COLOR_PAIR_GRN_ON_BLK, COLOR_PAIR_RED_ON_BLK))"
    unfolding styled_def by simp
  ultimately have mode: "\<exists>self'. handle_f2 self = Inr self'
               \<and> (pair_positive self', pair_negative self')
                   = (if base_char self' = 0x20
                      then (COLOR_PAIR_GRN_ON_GRN, COLOR_PAIR_RED_ON_RED)
                      else (COLOR_PAIR_GRN_ON_BLK, COLOR_PAIR_RED_ON_BLK))"
    by blast
  from catalogue_sizes f1 f2 mode show ?thesis
    by blast
qed

theorem cycling_round_trip_witness:
  "styled (IndicatorDisplay_init terminal_24x80)
   \<and> stored_number (number (IndicatorDisplay_init terminal_24x80))
   \<and> (\<exists>self'. repeated 4 handle_f1 (IndicatorDisplay_init terminal_24x80) = Inr self'
         \<and> char_set self' = CHAR_SETS ! 0)
   \<and> (\<exists>self'. repeated 8 handle_f2 (IndicatorDisplay_init terminal_24x80) = Inr self'
         \<and> base_char self' = BASE_CHARACTERS ! 4
         \<and> pair_positive self' = COLOR_PAIR_GRN_ON_BLK
         \<and> pair_negative self' = COLOR_PAIR_RED_ON_BLK)"
proof -
  have "window_ok terminal_24x80"
    by (simp add: terminal_24x80_def window_ok_blank)
  then have a: "styled (IndicatorDisplay_init terminal_24x80)"
    by (rule styled_init)
  have b: "stored_number (number (IndicatorDisplay_init terminal_24x80))"
    by (rule stored_number_init)
  have c: "char_set (IndicatorDisplay_init terminal_24x80) = CHAR_SETS ! 0"
      "base_char (IndicatorDisplay_init terminal_24x80) = BASE_CHARACTERS ! 4"
      "pair_positive (IndicatorDisplay_init terminal_24x80) = COLOR_PAIR_GRN_ON_BLK"
      "pair_negative (IndicatorDisplay_init terminal_24x80) = COLOR_PAIR_RED_ON_BLK"
    by (simp_all add: IndicatorDisplay_init_def)
  from cycling_round_trip [OF a b] a b show ?thesis
    unfolding c by blast
qed

end
